theory Spec2Isabelle
  imports Complex_Main "HOL-Library.Sublist" "HOL-Library.Multiset" "HOL-Library.AList"
begin

section \<open>The repository analysis edge function\<close>

text \<open>
  The repository holds two near-duplicate copies of the \<^verbatim>\<open>analyze-repository\<close> edge
  function. The copy with the \<^verbatim>\<open>checkBoltNewBadge\<close> marker check
  (\<^verbatim>\<open>src/unnamed/part_000\<close>) is modelled under the source's names; where the other copy
  (\<^verbatim>\<open>src/unnamed/part_001\<close>) differs, its function is modelled a second time under the
  source's name with the suffix \<open>_1\<close>.

  Modelling conventions.
  \<^item> JavaScript numbers are modelled exactly: integers as \<open>int\<close>, other numbers as \<open>rat\<close>
    (plus the two infinities that \<^verbatim>\<open>JSON.parse\<close> can deliver). The rounding of IEEE
    doubles is not modelled.
  \<^item> Strings are \<open>string\<close>; of the white space that \<^verbatim>\<open>trim\<close>, \<^verbatim>\<open>\s\<close> and
    \<^verbatim>\<open>parseInt\<close> skip, the ASCII characters are modelled.
  \<^item> A \<^verbatim>\<open>throw\<close> is a value \<open>Inl e\<close> of a sum type; a \<^verbatim>\<open>try/catch\<close> is a case
    distinction on it.
  \<^item> The built-in functions of the JavaScript runtime whose results the code only passes
    on (\<^verbatim>\<open>JSON.parse\<close>, the conversion of a number to a string, the local time zone)
    are the fields of a record \<open>runtime\<close> that every function takes as its first
    argument: what is proved holds for every such runtime.
\<close>

subsection \<open>JavaScript values\<close>

datatype number = Num rat | PosInfinity | NegInfinity

datatype json =
    JNull
  | JBool bool
  | JNumber number
  | JString string
  | JArray "json list"
  | JObject "(string \<times> json) list"

type_synonym object = "(string \<times> json) list"

text \<open>
  \<open>JSON_parse\<close> is \<^verbatim>\<open>JSON.parse\<close>: \<open>None\<close> where it throws a SyntaxError.
  \<open>Number_toString\<close> is the string conversion of a number value.
  \<open>LocalTZA t\<close> is the offset of local time from UTC, in milliseconds, at the instant
  \<open>t\<close>.
\<close>

record runtime =
  JSON_parse :: "string \<Rightarrow> json option"
  Number_toString :: "number \<Rightarrow> string"
  LocalTZA :: "int \<Rightarrow> int"

text \<open>\<^verbatim>\<open>x > k\<close> for a number value \<open>x\<close> and a finite constant \<open>k\<close>.\<close>

fun number_gt :: "number \<Rightarrow> rat \<Rightarrow> bool" where
  "number_gt (Num r) k = (r > k)"
| "number_gt PosInfinity k = True"
| "number_gt NegInfinity k = False"

text \<open>\<^verbatim>\<open>Number.isInteger\<close>.\<close>

fun isInteger :: "number \<Rightarrow> bool" where
  "isInteger (Num r) = (of_int \<lfloor>r\<rfloor> = r)"
| "isInteger PosInfinity = False"
| "isInteger NegInfinity = False"

text \<open>\<^verbatim>\<open>Math.round\<close>: the nearest integer, a half rounded up.\<close>

definition Math_round :: "rat \<Rightarrow> int" where
  "Math_round x = \<lfloor>x + 1 / 2\<rfloor>"

subsection \<open>Strings\<close>

text \<open>
  The decimal digits of an integer that is not negative, and the string of an integer
  (as a template literal writes a counter).
\<close>

function digits :: "int \<Rightarrow> string" where
  "digits n =
     (if n < 10 then [char_of (48 + n)]
      else digits (n div 10) @ [char_of (48 + n mod 10)])"
  by pat_completeness auto
termination
  by (relation "measure nat") auto

declare digits.simps [simp del]

definition String_int :: "int \<Rightarrow> string" where
  "String_int i = (if i < 0 then CHR ''-'' # digits (- i) else digits i)"

definition isSpace :: "char \<Rightarrow> bool" where
  "isSpace c = (c \<in> set [CHR '' '', CHR 0x09, CHR 0x0A, CHR 0x0B, CHR 0x0C, CHR 0x0D])"

text \<open>\<^verbatim>\<open>String.prototype.trim\<close>.\<close>

definition trim :: "string \<Rightarrow> string" where
  "trim s = rev (dropWhile isSpace (rev (dropWhile isSpace s)))"

text \<open>\<^verbatim>\<open>String.prototype.toLowerCase\<close>, on the ASCII letters.\<close>

definition toLowerCase :: "string \<Rightarrow> string" where
  "toLowerCase s =
     map (\<lambda>c. if 65 \<le> (of_char c :: nat) \<and> (of_char c :: nat) \<le> 90
              then char_of ((of_char c :: nat) + 32) else c) s"

text \<open>\<^verbatim>\<open>s.includes(t)\<close>.\<close>

definition includes_str :: "string \<Rightarrow> string \<Rightarrow> bool" where
  "includes_str s t = sublist t s"

text \<open>\<^verbatim>\<open>s.indexOf(c)\<close> and \<^verbatim>\<open>s.lastIndexOf(c)\<close> for a character: \<open>-1\<close> when absent.\<close>

fun indexOf :: "string \<Rightarrow> char \<Rightarrow> int" where
  "indexOf [] c = - 1"
| "indexOf (x # xs) c =
     (if x = c then 0
      else (let i = indexOf xs c in if i = - 1 then - 1 else i + 1))"

definition lastIndexOf :: "string \<Rightarrow> char \<Rightarrow> int" where
  "lastIndexOf s c =
     (let i = indexOf (rev s) c in if i = - 1 then - 1 else int (length s) - 1 - i)"

text \<open>\<^verbatim>\<open>s.substring(a, b)\<close> for \<open>0 \<le> a \<le> b\<close>.\<close>

definition substring :: "string \<Rightarrow> int \<Rightarrow> int \<Rightarrow> string" where
  "substring s a b = take (nat (b - a)) (drop (nat a) s)"

subsection \<open>Dates\<close>

text \<open>
  A \<^verbatim>\<open>Date\<close> object holds a time value: milliseconds since the epoch, or \<^verbatim>\<open>NaN\<close> for
  an invalid date (\<open>InvalidDate\<close>), which is what \<^verbatim>\<open>new Date(s)\<close> gives for a string
  that does not parse.
\<close>

datatype Date = Date int | InvalidDate

text \<open>\<^verbatim>\<open>a < b\<close> on two dates compares the time values; with \<^verbatim>\<open>NaN\<close> it is false.\<close>

fun date_less :: "Date \<Rightarrow> Date \<Rightarrow> bool" where
  "date_less (Date a) (Date b) = (a < b)"
| "date_less _ _ = False"

definition msPerDay :: int where
  "msPerDay = 86400000"

definition msPerHour :: int where
  "msPerHour = 3600000"

definition LocalTime :: "runtime \<Rightarrow> int \<Rightarrow> int" where
  "LocalTime rt t = t + LocalTZA rt t"

text \<open>\<^verbatim>\<open>getHours\<close> of a valid time value: the hour of the day in local time.\<close>

definition getHours :: "runtime \<Rightarrow> int \<Rightarrow> int" where
  "getHours rt t = (LocalTime rt t div msPerHour) mod 24"

text \<open>
  The civil date (year, month 1..12, day 1..31) of a day number counted from
  1970-01-01, in the proleptic Gregorian calendar.
\<close>

definition civil_from_days :: "int \<Rightarrow> int \<times> int \<times> int" where
  "civil_from_days day =
     (let z = day + 719468;
          era = z div 146097;
          doe = z - era * 146097;
          yoe = (doe - doe div 1460 + doe div 36524 - doe div 146096) div 365;
          y = yoe + era * 400;
          doy = doe - (365 * yoe + yoe div 4 - yoe div 100);
          mp = (5 * doy + 2) div 153;
          d = doy - (153 * mp + 2) div 5 + 1;
          m = (if mp < 10 then mp + 3 else mp - 9)
      in (if m \<le> 2 then y + 1 else y, m, d))"

definition weekDayNames :: "string list" where
  "weekDayNames = [''Sun'', ''Mon'', ''Tue'', ''Wed'', ''Thu'', ''Fri'', ''Sat'']"

definition monthNames :: "string list" where
  "monthNames = [''Jan'', ''Feb'', ''Mar'', ''Apr'', ''May'', ''Jun'',
                 ''Jul'', ''Aug'', ''Sep'', ''Oct'', ''Nov'', ''Dec'']"

text \<open>
  An integer that is not negative in decimal, padded with zeros on the left to \<open>w\<close>
  digits.
\<close>

definition padded :: "nat \<Rightarrow> int \<Rightarrow> string" where
  "padded w n = replicate (w - length (digits n)) CHR ''0'' @ digits n"

text \<open>
  \<^verbatim>\<open>Date.prototype.toDateString\<close>: week day, month, day of the month and year of the
  local date, as in \<^verbatim>\<open>Sat May 31 2025\<close>; \<^verbatim>\<open>Invalid Date\<close> for an invalid date.
\<close>

fun toDateString :: "runtime \<Rightarrow> Date \<Rightarrow> string" where
  "toDateString rt InvalidDate = ''Invalid Date''"
| "toDateString rt (Date tv) =
     (let day = LocalTime rt tv div msPerDay;
          (y, m, d) = civil_from_days day
      in weekDayNames ! nat ((day + 4) mod 7) @ '' '' @ monthNames ! nat (m - 1) @ '' '' @
         padded 2 d @ '' '' @ (if y < 0 then ''-'' else []) @ padded 4 \<bar>y\<bar>)"

subsection \<open>Data fetched from GitHub\<close>

text \<open>
  Of a commit the analysis reads \<^verbatim>\<open>commit.author.date\<close>, \<^verbatim>\<open>commit.message\<close> and
  \<^verbatim>\<open>commit.verification.verified\<close>. The field \<open>author_date\<close> is the time value
  \<^verbatim>\<open>new Date(commit.commit.author.date).getTime()\<close> of the ISO 8601 time stamp that the
  GitHub API delivers.
\<close>

record GitHubCommit =
  sha :: string
  author_date :: int
  message :: string
  verified :: bool

text \<open>\<open>created_at\<close> is the date \<^verbatim>\<open>new Date(repoData.created_at)\<close>.\<close>

record GitHubRepo =
  created_at :: Date
  language :: string
  size_kb :: int
  full_name :: string

subsection \<open>analyzeCommitPatterns\<close>

text \<open>
  The source names the rounded percentage \<^verbatim>\<open>githubVerifiedPercentage\<close> in part_000
  and \<^verbatim>\<open>verificationPercentage\<close> in part_001; one record serves both.
\<close>

record patterns =
  rapidCommits :: int
  filePatterns :: "string list"
  timePatterns :: "string list"
  verifiedCommits :: int
  totalCommits :: int
  githubVerifiedPercentage :: int

definition rapidThreshold :: int where
  "rapidThreshold = 5 * 60 * 1000"

text \<open>
  The loop \<^verbatim>\<open>for (let i = 1; i < commitTimes.length; i++)\<close> over the sorted times,
  counting the neighbours that are less than the threshold apart.
\<close>

definition countRapid :: "int list \<Rightarrow> int" where
  "countRapid commitTimes =
     fold (\<lambda>i rapid. if commitTimes ! i - commitTimes ! (i - 1) < rapidThreshold
                      then rapid + 1 else rapid)
          [1..<length commitTimes] 0"

definition analyzeCommitPatterns :: "runtime \<Rightarrow> GitHubCommit list \<Rightarrow> patterns" where
  "analyzeCommitPatterns rt commits =
     (let verifiedCount = int (length (filter verified commits));
          total = int (length commits);
          percentage = (if total > 0
                        then Math_round ((of_int verifiedCount / of_int total) * 100) else 0);
          commitTimes = sort (map author_date commits);
          rapid = countRapid commitTimes;
          packageJsonCommits = length (filter (\<lambda>c.
              includes_str (toLowerCase (message c)) ''package.json'' \<or>
              includes_str (toLowerCase (message c)) ''dependencies'') commits);
          filePatterns1 = (if packageJsonCommits > 0
                           then [''Package.json modifications detected''] else []);
          filePatterns2 = (if rapid > 5
                           then filePatterns1 @ [''Multiple rapid file changes'']
                           else filePatterns1);
          filePatterns3 = (if percentage > 70
                           then filePatterns2 @ [''High GitHub verification rate pattern'']
                           else filePatterns2);
          timePatterns1 = (if rapid > 10 then [''Frequent rapid commits detected''] else []);
          commitHours = map (\<lambda>c. getHours rt (author_date c)) commits;
          nightCommits = int (length (filter (\<lambda>hour. hour \<ge> 22 \<or> hour \<le> 6) commitHours));
          timePatterns2 = (if (of_int nightCommits :: rat) > of_int total * (3 / 10)
                           then timePatterns1 @ [''Unusual late-night development patterns'']
                           else timePatterns1)
      in \<lparr>rapidCommits = rapid,
          filePatterns = filePatterns3,
          timePatterns = timePatterns2,
          verifiedCommits = verifiedCount,
          totalCommits = total,
          githubVerifiedPercentage = percentage\<rparr>)"

text \<open>part_001: the same function but for the text of one finding.\<close>

definition analyzeCommitPatterns_1 :: "runtime \<Rightarrow> GitHubCommit list \<Rightarrow> patterns" where
  "analyzeCommitPatterns_1 rt commits =
     (let verifiedCount = int (length (filter verified commits));
          total = int (length commits);
          percentage = (if total > 0
                        then Math_round ((of_int verifiedCount / of_int total) * 100) else 0);
          commitTimes = sort (map author_date commits);
          rapid = countRapid commitTimes;
          packageJsonCommits = length (filter (\<lambda>c.
              includes_str (toLowerCase (message c)) ''package.json'' \<or>
              includes_str (toLowerCase (message c)) ''dependencies'') commits);
          filePatterns1 = (if packageJsonCommits > 0
                           then [''Package.json modifications detected''] else []);
          filePatterns2 = (if rapid > 5
                           then filePatterns1 @ [''Multiple rapid file changes'']
                           else filePatterns1);
          filePatterns3 = (if percentage > 70
                           then filePatterns2 @ [''High verification rate pattern'']
                           else filePatterns2);
          timePatterns1 = (if rapid > 10 then [''Frequent rapid commits detected''] else []);
          commitHours = map (\<lambda>c. getHours rt (author_date c)) commits;
          nightCommits = int (length (filter (\<lambda>hour. hour \<ge> 22 \<or> hour \<le> 6) commitHours));
          timePatterns2 = (if (of_int nightCommits :: rat) > of_int total * (3 / 10)
                           then timePatterns1 @ [''Unusual late-night development patterns'']
                           else timePatterns1)
      in \<lparr>rapidCommits = rapid,
          filePatterns = filePatterns3,
          timePatterns = timePatterns2,
          verifiedCommits = verifiedCount,
          totalCommits = total,
          githubVerifiedPercentage = percentage\<rparr>)"

subsection \<open>parseInt and String\<close>

text \<open>The value of a digit or letter as a digit of a numeral.\<close>

definition digitValue :: "char \<Rightarrow> nat option" where
  "digitValue c =
     (let n = (of_char c :: nat)
      in if 48 \<le> n \<and> n \<le> 57 then Some (n - 48)
         else if 97 \<le> n \<and> n \<le> 122 then Some (n - 87)
         else if 65 \<le> n \<and> n \<le> 90 then Some (n - 55)
         else None)"

definition isRadixDigit :: "nat \<Rightarrow> char \<Rightarrow> bool" where
  "isRadixDigit R c = (case digitValue c of Some v \<Rightarrow> v < R | None \<Rightarrow> False)"

text \<open>
  \<^verbatim>\<open>parseInt(inputString)\<close> with no radix: leading white space is skipped, then a sign,
  then \<^verbatim>\<open>0x\<close> selects radix 16, then the longest run of digits is read. \<open>None\<close> is
  \<^verbatim>\<open>NaN\<close>; \<^verbatim>\<open>-0\<close> is \<open>0\<close>.
\<close>

definition parseInt :: "string \<Rightarrow> int option" where
  "parseInt inputString =
     (let S = dropWhile isSpace inputString;
          sign = (if prefix ''-'' S then - 1 else 1);
          S1 = (if prefix ''+'' S \<or> prefix ''-'' S then tl S else S);
          stripPrefix = (prefix ''0x'' S1 \<or> prefix ''0X'' S1);
          R = (if stripPrefix then 16 else 10);
          S2 = (if stripPrefix then drop 2 S1 else S1);
          Z = takeWhile (isRadixDigit R) S2
      in if Z = [] then None
         else Some (sign * int (foldl (\<lambda>acc c. case digitValue c of
                                                    Some v \<Rightarrow> acc * R + v
                                                  | None \<Rightarrow> acc) 0 Z)))"

fun join :: "string \<Rightarrow> string list \<Rightarrow> string" where
  "join sep [] = []"
| "join sep [x] = x"
| "join sep (x # y # ys) = x @ sep @ join sep (y # ys)"

text \<open>
  \<^verbatim>\<open>String(v)\<close> for a value that \<^verbatim>\<open>JSON.parse\<close> made. An array is the strings of its
  elements joined by commas, \<^verbatim>\<open>null\<close> elements giving the empty string. An object is
  \<^verbatim>\<open>[object Object]\<close>, unless it has a property \<^verbatim>\<open>toString\<close> of its own: the value
  of that property is not callable and the conversion throws a TypeError (\<open>None\<close>).
\<close>

fun js_String :: "runtime \<Rightarrow> json \<Rightarrow> string option" where
  "js_String rt JNull = Some ''null''"
| "js_String rt (JBool b) = Some (if b then ''true'' else ''false'')"
| "js_String rt (JNumber n) = Some (Number_toString rt n)"
| "js_String rt (JString s) = Some s"
| "js_String rt (JArray xs) =
     map_option (join '','')
       (those (map (\<lambda>x. if x = JNull then Some [] else js_String rt x) xs))"
| "js_String rt (JObject props) =
     (if map_of props ''toString'' \<noteq> None then None else Some ''[object Object]'')"

text \<open>
  The same for the value of a property access \<^verbatim>\<open>o.f\<close>: \<open>None\<close> is \<^verbatim>\<open>undefined\<close>,
  the value of a property that the object does not have.
\<close>

definition String_of :: "runtime \<Rightarrow> json option \<Rightarrow> string option" where
  "String_of rt v = (case v of None \<Rightarrow> Some ''undefined'' | Some x \<Rightarrow> js_String rt x)"

text \<open>
  \<^verbatim>\<open>o.f > k\<close> for a property of an opinion and a constant. The comparison is modelled
  on numbers. On other values it is taken to be false: the code makes the comparison only
  on the \<^verbatim>\<open>likelihood\<close> of an opinion, which is a number whenever the comparison is
  reached (lemmas \<open>ensureNumber_likelihood\<close> and \<open>analyzeWithGemini_likelihood\<close> below).
\<close>

definition js_gt :: "json option \<Rightarrow> rat \<Rightarrow> bool" where
  "js_gt v k = (case v of Some (JNumber n) \<Rightarrow> number_gt n k | _ \<Rightarrow> False)"

subsection \<open>analyzeWithGemini\<close>

text \<open>
  The outcome of the call of the generative AI service: \<open>CallFailed\<close> when the request
  is rejected, the status is not ok, the body of the response is not JSON or it carries
  no text for the first candidate; otherwise that text.
\<close>

datatype gemini_reply = CallFailed | AiText string

datatype error = Error string | TypeError | SyntaxError

text \<open>
  \<^verbatim>\<open>cleanedText.replace(/```json\s*|\s*```/g, '')\<close>: from left to right, an opening fence
  with the white space after it, or a fence with the white space before it, is removed.
\<close>

function stripFences :: "string \<Rightarrow> string" where
  "stripFences s =
     (if s = [] then []
      else if prefix ''```json'' s then stripFences (dropWhile isSpace (drop 7 s))
      else if prefix ''```'' (dropWhile isSpace s)
           then stripFences (drop 3 (dropWhile isSpace s))
      else hd s # stripFences (tl s))"
  by pat_completeness auto
termination
proof (relation "measure length")
  show "wf (measure length)" by simp
next
  fix s :: string
  assume "s \<noteq> []" "prefix ''```json'' s"
  have "length (dropWhile isSpace (drop 7 s)) \<le> length (drop 7 s)"
    by (rule length_dropWhile_le)
  with \<open>s \<noteq> []\<close> show "(dropWhile isSpace (drop 7 s), s) \<in> measure length"
    by (cases s) auto
next
  fix s :: string
  assume "s \<noteq> []" "prefix ''```'' (dropWhile isSpace s)"
  have "length (dropWhile isSpace s) \<le> length s"
    by (rule length_dropWhile_le)
  with \<open>s \<noteq> []\<close> show "(drop 3 (dropWhile isSpace s), s) \<in> measure length"
    by (cases s) auto
next
  fix s :: string
  assume "s \<noteq> []"
  then show "(tl s, s) \<in> measure length"
    by (cases s) auto
qed

declare stripFences.simps [simp del]

text \<open>The cleaning of the raw text: trimmed, fences removed, cut to the outermost braces.\<close>

definition cleanText :: "string \<Rightarrow> string" where
  "cleanText aiText =
     (let cleanedText = stripFences (trim aiText);
          jsonStart = indexOf cleanedText CHR ''{'';
          jsonEnd = lastIndexOf cleanedText CHR ''}''
      in if jsonStart \<noteq> - 1 \<and> jsonEnd \<noteq> - 1 \<and> jsonEnd > jsonStart
         then substring cleanedText jsonStart (jsonEnd + 1)
         else cleanedText)"

definition requiredFields :: "string list" where
  "requiredFields = [''summary'', ''likelihood'', ''keyFindings'', ''recommendations'', ''confidence'']"

text \<open>
  \<^verbatim>\<open>if (!Array.isArray(o.f)) o.f = [String(o.f)]\<close>, for \<open>f\<close> one of \<^verbatim>\<open>keyFindings\<close> and
  \<^verbatim>\<open>recommendations\<close>.
\<close>

definition ensureArray :: "runtime \<Rightarrow> string \<Rightarrow> object \<Rightarrow> error + object" where
  "ensureArray rt f parsedAnalysis =
     (case map_of parsedAnalysis f of
        Some (JArray xs) \<Rightarrow> Inr parsedAnalysis
      | v \<Rightarrow> (case String_of rt v of
                None \<Rightarrow> Inl TypeError
              | Some s \<Rightarrow> Inr (AList.update f (JArray [JString s]) parsedAnalysis)))"

text \<open>
  \<^verbatim>\<open>if (typeof o.likelihood !== 'number') o.likelihood = parseInt(String(o.likelihood)) || estimate\<close>:
  \<^verbatim>\<open>||\<close> takes the estimate when \<^verbatim>\<open>parseInt\<close> gives \<^verbatim>\<open>NaN\<close> or \<open>0\<close>.
\<close>

definition ensureNumber :: "runtime \<Rightarrow> int \<Rightarrow> object \<Rightarrow> error + object" where
  "ensureNumber rt estimate parsedAnalysis =
     (case map_of parsedAnalysis ''likelihood'' of
        Some (JNumber n) \<Rightarrow> Inr parsedAnalysis
      | v \<Rightarrow> (case String_of rt v of
                None \<Rightarrow> Inl TypeError
              | Some s \<Rightarrow>
                  Inr (AList.update ''likelihood''
                         (JNumber (Num (of_int (case parseInt s of
                                                  None \<Rightarrow> estimate
                                                | Some i \<Rightarrow> if i = 0 then estimate else i))))
                         parsedAnalysis)))"

text \<open>\<^verbatim>\<open>['high', 'medium', 'low'].includes(o.confidence)\<close>.\<close>

definition validConfidence :: "json option \<Rightarrow> bool" where
  "validConfidence c = (c \<in> set [Some (JString ''high''), Some (JString ''medium''),
                                   Some (JString ''low'')])"

text \<open>
  The body of the inner \<^verbatim>\<open>try\<close> of part_000, lines 331 to 361: parse, check the
  required fields, coerce, return the parsed object. \<^verbatim>\<open>hasOwnProperty\<close> is called on
  the parsed value: on \<^verbatim>\<open>null\<close> the call throws a TypeError, as it does on an object
  that has a property \<^verbatim>\<open>hasOwnProperty\<close> of its own (whose value is not callable); a
  number, a boolean, a string or an array has none of the required fields.
\<close>

definition parseAnalysis :: "runtime \<Rightarrow> patterns \<Rightarrow> string \<Rightarrow> error + object" where
  "parseAnalysis rt patterns cleanedText =
     (case JSON_parse rt cleanedText of
        None \<Rightarrow> Inl SyntaxError
      | Some JNull \<Rightarrow> Inl TypeError
      | Some (JObject parsedAnalysis) \<Rightarrow>
          if map_of parsedAnalysis ''hasOwnProperty'' \<noteq> None then Inl TypeError
          else if \<not> list_all (\<lambda>field. map_of parsedAnalysis field \<noteq> None) requiredFields
          then Inl (Error ''Missing required fields in AI response'')
          else
            (case ensureArray rt ''keyFindings'' parsedAnalysis of
               Inl e \<Rightarrow> Inl e
             | Inr parsed1 \<Rightarrow>
            (case ensureArray rt ''recommendations'' parsed1 of
               Inl e \<Rightarrow> Inl e
             | Inr parsed2 \<Rightarrow>
            (case ensureNumber rt
                    (min (githubVerifiedPercentage patterns + rapidCommits patterns) 100)
                    parsed2 of
               Inl e \<Rightarrow> Inl e
             | Inr parsed3 \<Rightarrow>
                 if \<not> validConfidence (map_of parsed3 ''confidence'')
                 then Inr (AList.update ''confidence''
                        (JString (if js_gt (map_of parsed3 ''likelihood'') 80 then ''high''
                                  else if js_gt (map_of parsed3 ''likelihood'') 60 then ''medium''
                                  else ''low''))
                        parsed3)
                 else Inr parsed3)))
      | Some _ \<Rightarrow> Inl (Error ''Missing required fields in AI response''))"

text \<open>The \<^verbatim>\<open>catch\<close> block of part_000, lines 373 to 388: the fallback analysis.\<close>

definition fallbackAnalysis :: "runtime \<Rightarrow> GitHubRepo \<Rightarrow> patterns \<Rightarrow> object" where
  "fallbackAnalysis rt repoData patterns =
     [(''summary'', JString (''Analysis based on '' @ String_int (totalCommits patterns) @
          '' commits with '' @ String_int (githubVerifiedPercentage patterns) @
          ''% GitHub verification rate. Rapid commits: '' @
          String_int (rapidCommits patterns) @ ''. Development patterns suggest '' @
          (if rapidCommits patterns > 10 then ''automated'' else ''manual'') @
          '' code generation.'')),
      (''likelihood'', JNumber (Num (min
          (of_int (githubVerifiedPercentage patterns) * (3 / 10) +
           of_int (rapidCommits patterns) * 2 +
           (if totalCommits patterns > 50 then 10 else 0)) 100))),
      (''keyFindings'', JArray
         [JString (''GitHub verification rate: '' @
            String_int (githubVerifiedPercentage patterns) @ ''% ('' @
            String_int (verifiedCommits patterns) @ ''/'' @
            String_int (totalCommits patterns) @ '' commits)''),
          JString (''Rapid commit sequences: '' @ String_int (rapidCommits patterns) @
            '' detected''),
          JString (if rapidCommits patterns > 10
                   then ''High automation suggests AI-assisted development''
                   else ''Development patterns suggest human involvement''),
          JString (''Repository created: '' @ toDateString rt (created_at repoData))]),
      (''recommendations'', JArray
         [JString (if rapidCommits patterns > 10
                   then ''Manual code review recommended for hackathon compliance''
                   else ''Development patterns appear normal''),
          JString ''Consider reviewing commit history for development timeline'',
          JString ''Validate that primary development occurred within hackathon timeframe'']),
      (''confidence'', JString (if rapidCommits patterns > 15 then ''high''
                                else if rapidCommits patterns > 7 then ''medium''
                                else ''low''))]"

text \<open>
  The outer \<^verbatim>\<open>try\<close> of part_000, lines 282 to 367, from the reply of the service on:
  a failed call and an empty text (\<^verbatim>\<open>!aiText\<close>) throw, and the inner \<^verbatim>\<open>catch\<close>
  throws again whatever the inner \<^verbatim>\<open>try\<close> threw.
\<close>

definition tryAnalysis :: "runtime \<Rightarrow> patterns \<Rightarrow> gemini_reply \<Rightarrow> error + object" where
  "tryAnalysis rt patterns reply =
     (case reply of
        CallFailed \<Rightarrow> Inl (Error ''Gemini API error'')
      | AiText aiText \<Rightarrow>
          if aiText = [] then Inl (Error ''No response from Gemini AI'')
          else (case parseAnalysis rt patterns (cleanText aiText) of
                  Inl parseError \<Rightarrow> Inl (Error ''Failed to parse AI response as JSON'')
                | Inr parsedAnalysis \<Rightarrow> Inr parsedAnalysis))"

definition analyzeWithGemini ::
    "runtime \<Rightarrow> GitHubRepo \<Rightarrow> patterns \<Rightarrow> gemini_reply \<Rightarrow> object" where
  "analyzeWithGemini rt repoData patterns reply =
     (case tryAnalysis rt patterns reply of
        Inl e \<Rightarrow> fallbackAnalysis rt repoData patterns
      | Inr parsedAnalysis \<Rightarrow> parsedAnalysis)"

text \<open>
  part_001, lines 274 to 332: the estimate that replaces a likelihood that is not a
  number is the verification percentage, a missing confidence is derived from the
  verification percentage, and the fallback analysis has other texts and formulas.
\<close>

definition parseAnalysis_1 :: "runtime \<Rightarrow> patterns \<Rightarrow> string \<Rightarrow> error + object" where
  "parseAnalysis_1 rt patterns cleanedText =
     (case JSON_parse rt cleanedText of
        None \<Rightarrow> Inl SyntaxError
      | Some JNull \<Rightarrow> Inl TypeError
      | Some (JObject parsedAnalysis) \<Rightarrow>
          if map_of parsedAnalysis ''hasOwnProperty'' \<noteq> None then Inl TypeError
          else if \<not> list_all (\<lambda>field. map_of parsedAnalysis field \<noteq> None) requiredFields
          then Inl (Error ''Missing required fields in AI response'')
          else
            (case ensureArray rt ''keyFindings'' parsedAnalysis of
               Inl e \<Rightarrow> Inl e
             | Inr parsed1 \<Rightarrow>
            (case ensureArray rt ''recommendations'' parsed1 of
               Inl e \<Rightarrow> Inl e
             | Inr parsed2 \<Rightarrow>
            (case ensureNumber rt (githubVerifiedPercentage patterns) parsed2 of
               Inl e \<Rightarrow> Inl e
             | Inr parsed3 \<Rightarrow>
                 if \<not> validConfidence (map_of parsed3 ''confidence'')
                 then Inr (AList.update ''confidence''
                        (JString (if githubVerifiedPercentage patterns > 80 then ''high''
                                  else if githubVerifiedPercentage patterns > 60 then ''medium''
                                  else ''low''))
                        parsed3)
                 else Inr parsed3)))
      | Some _ \<Rightarrow> Inl (Error ''Missing required fields in AI response''))"

definition fallbackAnalysis_1 :: "runtime \<Rightarrow> GitHubRepo \<Rightarrow> patterns \<Rightarrow> object" where
  "fallbackAnalysis_1 rt repoData patterns =
     [(''summary'', JString (''Analysis based on '' @ String_int (totalCommits patterns) @
          '' commits with '' @ String_int (githubVerifiedPercentage patterns) @
          ''% verification rate. '' @
          (if githubVerifiedPercentage patterns > 80
           then ''High verification suggests AI generation.''
           else ''Verification patterns indicate mixed development approach.''))),
      (''likelihood'', JNumber (Num (of_int (min
          (githubVerifiedPercentage patterns + (if rapidCommits patterns > 10 then 15 else 0))
          100)))),
      (''keyFindings'', JArray
         [JString (''Verification rate: '' @
            String_int (githubVerifiedPercentage patterns) @ ''% ('' @
            String_int (verifiedCommits patterns) @ ''/'' @
            String_int (totalCommits patterns) @ '' commits)''),
          JString (''Rapid commit sequences: '' @ String_int (rapidCommits patterns) @
            '' detected''),
          JString (if githubVerifiedPercentage patterns > 80
                   then ''High verification rate indicates AI-assisted development''
                   else ''Verification patterns suggest human development''),
          JString (''Repository created: '' @ toDateString rt (created_at repoData))]),
      (''recommendations'', JArray
         [JString (if githubVerifiedPercentage patterns > 80
                   then ''Manual code review recommended for hackathon compliance''
                   else ''Verification patterns appear normal''),
          JString ''Consider reviewing commit history for development timeline'',
          JString ''Validate that primary development occurred within hackathon timeframe'']),
      (''confidence'', JString (if githubVerifiedPercentage patterns > 80 then ''high''
                                else if githubVerifiedPercentage patterns > 60 then ''medium''
                                else ''low''))]"

definition tryAnalysis_1 :: "runtime \<Rightarrow> patterns \<Rightarrow> gemini_reply \<Rightarrow> error + object" where
  "tryAnalysis_1 rt patterns reply =
     (case reply of
        CallFailed \<Rightarrow> Inl (Error ''Gemini API error'')
      | AiText aiText \<Rightarrow>
          if aiText = [] then Inl (Error ''No response from Gemini AI'')
          else (case parseAnalysis_1 rt patterns (cleanText aiText) of
                  Inl parseError \<Rightarrow> Inl (Error ''Failed to parse AI response as JSON'')
                | Inr parsedAnalysis \<Rightarrow> Inr parsedAnalysis))"

definition analyzeWithGemini_1 ::
    "runtime \<Rightarrow> GitHubRepo \<Rightarrow> patterns \<Rightarrow> gemini_reply \<Rightarrow> object" where
  "analyzeWithGemini_1 rt repoData patterns reply =
     (case tryAnalysis_1 rt patterns reply of
        Inl e \<Rightarrow> fallbackAnalysis_1 rt repoData patterns
      | Inr parsedAnalysis \<Rightarrow> parsedAnalysis)"

subsection \<open>checkHackathonEligibility\<close>

record eligibility =
  isEligible :: bool
  reason :: string

text \<open>\<^verbatim>\<open>new Date('2025-05-31T00:00:00.000Z')\<close> and \<^verbatim>\<open>new Date('2024-12-01T00:00:00.000Z')\<close>.\<close>

definition hackathonStartDate :: Date where
  "hackathonStartDate = Date 1748649600000"

definition hackathonStartDate_1 :: Date where
  "hackathonStartDate_1 = Date 1733011200000"

definition checkHackathonEligibility :: "runtime \<Rightarrow> GitHubRepo \<Rightarrow> eligibility" where
  "checkHackathonEligibility rt repoData =
     (let createdDate = created_at repoData
      in if date_less createdDate hackathonStartDate
         then \<lparr>isEligible = False,
               reason = ''Repository created on '' @ toDateString rt createdDate @
                        '', before hackathon start date (May 31, 2025)''\<rparr>
         else \<lparr>isEligible = True,
               reason = ''Repository created on '' @ toDateString rt createdDate @
                        '', from/after hackathon start date (May 31, 2025)''\<rparr>)"

definition checkHackathonEligibility_1 :: "runtime \<Rightarrow> GitHubRepo \<Rightarrow> eligibility" where
  "checkHackathonEligibility_1 rt repoData =
     (let createdDate = created_at repoData
      in if date_less createdDate hackathonStartDate_1
         then \<lparr>isEligible = False,
               reason = ''Repository created on '' @ toDateString rt createdDate @
                        '', before hackathon submission period (December 1, 2024)''\<rparr>
         else \<lparr>isEligible = True,
               reason = ''Repository meets hackathon timeline requirements''\<rparr>)"

subsection \<open>The request handler\<close>

text \<open>
  The object that the handler returns. Both copies build it; part_001 has no field
  \<^verbatim>\<open>hasBoltNewBadge\<close> (\<open>None\<close>). A field that the handler reads from the opinion is a
  \<open>json option\<close>: \<open>None\<close> is \<^verbatim>\<open>undefined\<close>.
\<close>

record AnalysisResult =
  repoUrl :: string
  verificationPercentage :: "json option"
  isLikelyAIGenerated :: bool
  isEligible :: bool
  hasBoltNewBadge :: "bool option"
  commitPatterns :: patterns
  confidence :: "json option"
  details :: "string list"
  aiAnalysis :: object
  eligibilityReason :: string

text \<open>The warning sign and variation selector that open the first detail, in UTF-8.\<close>

definition warningSign :: string where
  "warningSign = [CHR 0xE2, CHR 0x9A, CHR 0xA0, CHR 0xEF, CHR 0xB8, CHR 0x8F]"

text \<open>
  A value in a template literal. The conversion of an object with a \<^verbatim>\<open>toString\<close>
  property of its own would throw; the handler converts the likelihood only, which is a
  number.
\<close>

definition template :: "runtime \<Rightarrow> json option \<Rightarrow> string" where
  "template rt v = (case String_of rt v of Some s \<Rightarrow> s | None \<Rightarrow> [])"

text \<open>
  The handler of part_000 from line 454 on, once the repository, its commits and the
  marker flag are fetched: \<open>reply\<close> is the outcome of the call that
  \<^verbatim>\<open>analyzeWithGemini\<close> makes. The local variable \<^verbatim>\<open>confidence\<close> of lines 470 to 475
  is never read and is left out.
\<close>

definition serve ::
    "runtime \<Rightarrow> string \<Rightarrow> GitHubRepo \<Rightarrow> GitHubCommit list \<Rightarrow> bool \<Rightarrow> gemini_reply
      \<Rightarrow> AnalysisResult" where
  "serve rt url repoData commits badge reply =
     (let eligibility = checkHackathonEligibility rt repoData;
          patterns = analyzeCommitPatterns rt commits;
          analysis = analyzeWithGemini rt repoData patterns reply;
          likely = js_gt (map_of analysis ''likelihood'') 70;
          details0 =
            [''Repository analyzed: '' @ String_int (totalCommits patterns) @ '' total commits'',
             ''GitHub verified commits: '' @ String_int (verifiedCommits patterns) @ '' ('' @
               String_int (githubVerifiedPercentage patterns) @ ''%)'',
             ''Rapid commit sequences: '' @ String_int (rapidCommits patterns),
             ''AI likelihood assessment: '' @ template rt (map_of analysis ''likelihood'') @ ''%'',
             ''Bolt.new badge '' @ (if badge then ''detected'' else ''not found'') @
               '' in source code'',
             ''Repository created: '' @ toDateString rt (created_at repoData),
             reason eligibility];
          details1 = (if \<not> eligibility.isEligible eligibility
                      then (warningSign @ '' Repository not eligible for hackathon'') # details0
                      else details0)
      in \<lparr>repoUrl = url,
          verificationPercentage = map_of analysis ''likelihood'',
          isLikelyAIGenerated = likely,
          isEligible = eligibility.isEligible eligibility,
          hasBoltNewBadge = Some badge,
          commitPatterns = patterns,
          confidence = map_of analysis ''confidence'',
          details = details1,
          aiAnalysis = analysis,
          eligibilityReason = reason eligibility\<rparr>)"

text \<open>The handler of part_001 from line 397 on.\<close>

definition serve_1 ::
    "runtime \<Rightarrow> string \<Rightarrow> GitHubRepo \<Rightarrow> GitHubCommit list \<Rightarrow> gemini_reply
      \<Rightarrow> AnalysisResult" where
  "serve_1 rt url repoData commits reply =
     (let eligibility = checkHackathonEligibility_1 rt repoData;
          patterns = analyzeCommitPatterns_1 rt commits;
          analysis = analyzeWithGemini_1 rt repoData patterns reply;
          likely = (githubVerifiedPercentage patterns > 80 \<or> rapidCommits patterns > 15);
          level = (if githubVerifiedPercentage patterns > 80 \<or> rapidCommits patterns > 20
                   then ''high''
                   else if githubVerifiedPercentage patterns > 60 \<or> rapidCommits patterns > 10
                   then ''medium''
                   else ''low'');
          details0 =
            [''Repository analyzed: '' @ String_int (totalCommits patterns) @ '' total commits'',
             ''Verified commits: '' @ String_int (verifiedCommits patterns) @ '' ('' @
               String_int (githubVerifiedPercentage patterns) @ ''%)'',
             ''Rapid commit sequences: '' @ String_int (rapidCommits patterns),
             ''Repository created: '' @ toDateString rt (created_at repoData),
             reason eligibility];
          details1 = (if \<not> eligibility.isEligible eligibility
                      then (warningSign @ '' Repository not eligible for hackathon'') # details0
                      else details0)
      in \<lparr>repoUrl = url,
          verificationPercentage =
            Some (JNumber (Num (of_int (githubVerifiedPercentage patterns)))),
          isLikelyAIGenerated = likely,
          isEligible = eligibility.isEligible eligibility,
          hasBoltNewBadge = None,
          commitPatterns = patterns,
          confidence = Some (JString level),
          details = details1,
          aiAnalysis = analysis,
          eligibilityReason = reason eligibility\<rparr>)"

subsection \<open>Predicates on opinions, and a runtime for the scenarios\<close>

text \<open>An opinion has all five required fields.\<close>

definition hasFields :: "object \<Rightarrow> bool" where
  "hasFields a = list_all (\<lambda>field. map_of a field \<noteq> None) requiredFields"

text \<open>A property value is a number; it is a number between 0 and 100; it is an integer.\<close>

definition isNumber :: "json option \<Rightarrow> bool" where
  "isNumber v = (case v of Some (JNumber n) \<Rightarrow> True | _ \<Rightarrow> False)"

definition inPercentRange :: "json option \<Rightarrow> bool" where
  "inPercentRange v =
     (case v of Some (JNumber (Num r)) \<Rightarrow> 0 \<le> r \<and> r \<le> 100 | _ \<Rightarrow> False)"

definition isIntegerValue :: "json option \<Rightarrow> bool" where
  "isIntegerValue v = (case v of Some (JNumber n) \<Rightarrow> isInteger n | _ \<Rightarrow> False)"

text \<open>A property value is an array (\<^verbatim>\<open>Array.isArray\<close>); a parsed value is an object.\<close>

definition isArray :: "json option \<Rightarrow> bool" where
  "isArray v = (case v of Some (JArray xs) \<Rightarrow> True | _ \<Rightarrow> False)"

definition isObject :: "json \<Rightarrow> bool" where
  "isObject v = (case v of JObject props \<Rightarrow> True | _ \<Rightarrow> False)"

text \<open>
  The structurally valid opinion of the specification: all five fields, the likelihood
  an integer between 0 and 100, the confidence one of the three levels.
\<close>

definition validOpinion :: "object \<Rightarrow> bool" where
  "validOpinion a =
     (hasFields a \<and> isIntegerValue (map_of a ''likelihood'') \<and>
      inPercentRange (map_of a ''likelihood'') \<and> validConfidence (map_of a ''confidence''))"

text \<open>
  The runtime of the scenarios: the UTC time zone, numbers written in plain decimal
  notation (as JavaScript writes the integers and short decimal fractions that occur
  there), and \<^verbatim>\<open>JSON.parse\<close> given by its results on the texts of the scenario.
\<close>

fun fractionDigits :: "nat \<Rightarrow> rat \<Rightarrow> string" where
  "fractionDigits 0 r = []"
| "fractionDigits (Suc k) r =
     (if r = 0 then []
      else digits \<lfloor>r * 10\<rfloor> @ fractionDigits k (r * 10 - of_int \<lfloor>r * 10\<rfloor>))"

definition plainDecimal :: "number \<Rightarrow> string" where
  "plainDecimal n =
     (case n of
        PosInfinity \<Rightarrow> ''Infinity''
      | NegInfinity \<Rightarrow> ''-Infinity''
      | Num r \<Rightarrow>
          (if r < 0 then ''-'' else []) @ digits \<lfloor>\<bar>r\<bar>\<rfloor> @
          (if \<bar>r\<bar> = of_int \<lfloor>\<bar>r\<bar>\<rfloor> then []
           else ''.'' @ fractionDigits 20 (\<bar>r\<bar> - of_int \<lfloor>\<bar>r\<bar>\<rfloor>)))"

definition utc :: "(string \<Rightarrow> json option) \<Rightarrow> runtime" where
  "utc parse = \<lparr>JSON_parse = parse, Number_toString = plainDecimal, LocalTZA = (\<lambda>t. 0)\<rparr>"

subsection \<open>Scenarios\<close>

text \<open>
  The signal bundle of the specification's third end-to-end scenario, a repository
  created on 15 June 2025, and four commits ten minutes apart of which three are verified.
\<close>

definition scenarioBundle :: patterns where
  "scenarioBundle =
     \<lparr>rapidCommits = 12, filePatterns = [], timePatterns = [],
      verifiedCommits = 17, totalCommits = 20, githubVerifiedPercentage = 85\<rparr>"

definition scenarioRepo :: GitHubRepo where
  "scenarioRepo =
     \<lparr>created_at = Date 1749945600000, language = ''TypeScript'', size_kb = 120,
      full_name = ''octocat/hello''\<rparr>"

definition scenarioCommits :: "GitHubCommit list" where
  "scenarioCommits =
     [\<lparr>sha = ''d'', author_date = 1749947400000, message = ''polish'', verified = True\<rparr>,
      \<lparr>sha = ''c'', author_date = 1749946800000, message = ''fix'', verified = False\<rparr>,
      \<lparr>sha = ''b'', author_date = 1749946200000, message = ''add'', verified = True\<rparr>,
      \<lparr>sha = ''a'', author_date = 1749945600000, message = ''init'', verified = True\<rparr>]"

text \<open>
  A reply of the service with the likelihood \<open>l\<close> and the confidence \<open>c\<close> as they are
  written in the text, and the value that \<^verbatim>\<open>JSON.parse\<close> makes of such a text.
\<close>

definition opinionText :: "string \<Rightarrow> string \<Rightarrow> string" where
  "opinionText l c =
     ''{\"summary\":\"Looks generated\",\"likelihood\":'' @ l @
     '',\"keyFindings\":[\"a\"],\"recommendations\":[\"b\"],\"confidence\":\"'' @ c @ ''\"}''"

definition opinionValue :: "json \<Rightarrow> string \<Rightarrow> json" where
  "opinionValue l c =
     JObject [(''summary'', JString ''Looks generated''), (''likelihood'', l),
              (''keyFindings'', JArray [JString ''a'']),
              (''recommendations'', JArray [JString ''b'']),
              (''confidence'', JString c)]"

section \<open>Properties\<close>

lemma countRapid_fold_bounds:
  "acc \<le> fold (\<lambda>i rapid. if P i then rapid + 1 else rapid) is (acc :: int) \<and>
   fold (\<lambda>i rapid. if P i then rapid + 1 else rapid) is acc \<le> acc + int (length is)"
proof (induction "is" arbitrary: acc)
  case Nil
  show ?case by simp
next
  case (Cons i "is")
  show ?case
  proof (cases "P i")
    case True
    with Cons [of "acc + 1"] show ?thesis by simp
  next
    case False
    with Cons [of acc] show ?thesis by simp
  qed
qed

lemma countRapid_bounds:
  "0 \<le> countRapid ts \<and> countRapid ts \<le> max (int (length ts) - 1) 0"
  using countRapid_fold_bounds
    [of 0 "\<lambda>i. ts ! i - ts ! (i - 1) < rapidThreshold" "[1..<length ts]"]
  by (auto simp: countRapid_def)

lemma percentage_bounds:
  assumes "0 \<le> v" "v \<le> t" "0 < t"
  shows "0 \<le> Math_round ((of_int v / of_int t) * 100) \<and>
         Math_round ((of_int v / of_int t) * 100) \<le> 100"
proof -
  define q :: rat where "q = of_int v / of_int t"
  from assms have q0: "0 \<le> q" by (simp add: q_def)
  from assms have "(of_int v :: rat) \<le> of_int t" by simp
  with assms have q1: "q \<le> 1" by (simp add: q_def divide_le_eq_1)
  from q0 have "0 \<le> q * 100 + 1 / 2" by simp
  then have lo: "0 \<le> \<lfloor>q * 100 + 1 / 2\<rfloor>" by (simp only: zero_le_floor)
  from q1 have "q * 100 + 1 / 2 < 101" by simp
  then have "\<lfloor>q * 100 + 1 / 2\<rfloor> < 101" by (simp only: floor_less_iff of_int_numeral)
  with lo show ?thesis by (simp add: Math_round_def q_def)
qed

lemma analyze_fields:
  "verifiedCommits (analyzeCommitPatterns rt commits) = int (length (filter verified commits))"
  "totalCommits (analyzeCommitPatterns rt commits) = int (length commits)"
  "rapidCommits (analyzeCommitPatterns rt commits) = countRapid (sort (map author_date commits))"
  "githubVerifiedPercentage (analyzeCommitPatterns rt commits) =
     (if int (length commits) > 0
      then Math_round ((of_int (int (length (filter verified commits))) /
                        of_int (int (length commits))) * 100)
      else 0)"
  by (simp_all add: analyzeCommitPatterns_def Let_def)

lemma analyze_1_fields:
  "verifiedCommits (analyzeCommitPatterns_1 rt commits) = int (length (filter verified commits))"
  "totalCommits (analyzeCommitPatterns_1 rt commits) = int (length commits)"
  "rapidCommits (analyzeCommitPatterns_1 rt commits) = countRapid (sort (map author_date commits))"
  "githubVerifiedPercentage (analyzeCommitPatterns_1 rt commits) =
     (if int (length commits) > 0
      then Math_round ((of_int (int (length (filter verified commits))) /
                        of_int (int (length commits))) * 100)
      else 0)"
  by (simp_all add: analyzeCommitPatterns_1_def Let_def)

lemma analyze_1_counters:
  "verifiedCommits (analyzeCommitPatterns_1 rt commits) =
     verifiedCommits (analyzeCommitPatterns rt commits)"
  "totalCommits (analyzeCommitPatterns_1 rt commits) =
     totalCommits (analyzeCommitPatterns rt commits)"
  "rapidCommits (analyzeCommitPatterns_1 rt commits) =
     rapidCommits (analyzeCommitPatterns rt commits)"
  "githubVerifiedPercentage (analyzeCommitPatterns_1 rt commits) =
     githubVerifiedPercentage (analyzeCommitPatterns rt commits)"
  by (simp_all only: analyze_fields analyze_1_fields)

lemma percentage_of_commits_bounds:
  "0 \<le> githubVerifiedPercentage (analyzeCommitPatterns rt commits) \<and>
   githubVerifiedPercentage (analyzeCommitPatterns rt commits) \<le> 100"
proof (cases "commits = []")
  case True
  then show ?thesis by (simp add: analyze_fields)
next
  case False
  then have "0 < int (length commits)" by simp
  moreover have "int (length (filter verified commits)) \<le> int (length commits)" by simp
  moreover have "0 \<le> int (length (filter verified commits))" by simp
  ultimately show ?thesis
    using percentage_bounds [of "int (length (filter verified commits))" "int (length commits)"]
    by (simp add: analyze_fields)
qed

lemma rapid_of_commits_bounds:
  "0 \<le> rapidCommits (analyzeCommitPatterns rt commits) \<and>
   rapidCommits (analyzeCommitPatterns rt commits) \<le> max (int (length commits) - 1) 0"
  using countRapid_bounds [of "sort (map author_date commits)"]
  by (simp add: analyze_fields)

lemma sort_times_mset:
  assumes "mset commits' = mset commits"
  shows "sort (map author_date commits') = sort (map author_date commits)"
proof -
  from assms have "mset (map author_date commits') = mset (map author_date commits)"
    by (metis mset_map)
  then show ?thesis
    by (intro properties_for_sort) simp_all
qed

subsection \<open>The commit pattern analyzer\<close>

text \<open>
  Claim C7. For every commit list, the signal bundle of \<open>analyzeCommitPatterns\<close> (in both
  copies of the function) has \<open>0 \<le> verifiedCommits \<le> totalCommits\<close>, a verification
  percentage between 0 and 100, and \<open>rapidCommits \<le> max (totalCommits - 1) 0\<close>.
  (The quotient is taken exactly here. Division, multiplication and \<^verbatim>\<open>Math.round\<close> on
  doubles are monotone, so the rounding of the quotient cannot leave the range either.)
\<close>

theorem C7_signal_bundle_bounds:
  "0 \<le> verifiedCommits (analyzeCommitPatterns rt commits) \<and>
   verifiedCommits (analyzeCommitPatterns rt commits)
     \<le> totalCommits (analyzeCommitPatterns rt commits) \<and>
   0 \<le> githubVerifiedPercentage (analyzeCommitPatterns rt commits) \<and>
   githubVerifiedPercentage (analyzeCommitPatterns rt commits) \<le> 100 \<and>
   rapidCommits (analyzeCommitPatterns rt commits)
     \<le> max (totalCommits (analyzeCommitPatterns rt commits) - 1) 0 \<and>
   0 \<le> verifiedCommits (analyzeCommitPatterns_1 rt commits) \<and>
   verifiedCommits (analyzeCommitPatterns_1 rt commits)
     \<le> totalCommits (analyzeCommitPatterns_1 rt commits) \<and>
   0 \<le> githubVerifiedPercentage (analyzeCommitPatterns_1 rt commits) \<and>
   githubVerifiedPercentage (analyzeCommitPatterns_1 rt commits) \<le> 100 \<and>
   rapidCommits (analyzeCommitPatterns_1 rt commits)
     \<le> max (totalCommits (analyzeCommitPatterns_1 rt commits) - 1) 0"
proof -
  have counters:
    "0 \<le> verifiedCommits (analyzeCommitPatterns rt commits)"
    "verifiedCommits (analyzeCommitPatterns rt commits)
       \<le> totalCommits (analyzeCommitPatterns rt commits)"
    by (simp_all add: analyze_fields)
  have rapid:
    "rapidCommits (analyzeCommitPatterns rt commits)
       \<le> max (totalCommits (analyzeCommitPatterns rt commits) - 1) 0"
    using rapid_of_commits_bounds [of rt commits] by (simp add: analyze_fields(2))
  from counters rapid percentage_of_commits_bounds [of rt commits] show ?thesis
    by (simp only: analyze_1_counters simp_thms)
qed

text \<open>
  The second scenario of the specification: twenty verified commits three seconds apart,
  from midnight UTC on. All nineteen pairs of neighbours are rapid, which is the bound,
  and the percentage is 100.
\<close>

theorem C7_signal_bundle_bounds_witness:
  "analyzeCommitPatterns (utc Map.empty)
     (map (\<lambda>i. \<lparr>sha = ''c'', author_date = 1748649600000 + int i * 3000,
                 message = ''update'', verified = True\<rparr>) [0..<20])
   = \<lparr>rapidCommits = 19,
      filePatterns = [''Multiple rapid file changes'', ''High GitHub verification rate pattern''],
      timePatterns = [''Frequent rapid commits detected'',
                      ''Unusual late-night development patterns''],
      verifiedCommits = 20, totalCommits = 20, githubVerifiedPercentage = 100\<rparr> \<and>
   rapidCommits (analyzeCommitPatterns (utc Map.empty)
     (map (\<lambda>i. \<lparr>sha = ''c'', author_date = 1748649600000 + int i * 3000,
                 message = ''update'', verified = True\<rparr>) [0..<20]))
     \<le> max (totalCommits (analyzeCommitPatterns (utc Map.empty)
     (map (\<lambda>i. \<lparr>sha = ''c'', author_date = 1748649600000 + int i * 3000,
                 message = ''update'', verified = True\<rparr>) [0..<20])) - 1) 0"
proof -
  let ?commits = "map (\<lambda>i. \<lparr>sha = ''c'', author_date = 1748649600000 + int i * 3000,
                             message = ''update'', verified = True\<rparr>) [0..<20]"
  have computed:
    "analyzeCommitPatterns (utc Map.empty) ?commits
     = \<lparr>rapidCommits = 19,
        filePatterns = [''Multiple rapid file changes'', ''High GitHub verification rate pattern''],
        timePatterns = [''Frequent rapid commits detected'',
                        ''Unusual late-night development patterns''],
        verifiedCommits = 20, totalCommits = 20, githubVerifiedPercentage = 100\<rparr>"
    by code_simp
  from C7_signal_bundle_bounds [of "utc Map.empty" ?commits]
  have "rapidCommits (analyzeCommitPatterns (utc Map.empty) ?commits)
          \<le> max (totalCommits (analyzeCommitPatterns (utc Map.empty) ?commits) - 1) 0"
    by (simp only: simp_thms)
  with computed show ?thesis by (simp only: simp_thms)
qed

text \<open>
  Claim C8. For every commit list and every permutation of it, \<open>analyzeCommitPatterns\<close>
  (in both copies) computes the same \<open>rapidCommits\<close>: the times are sorted before the
  neighbours are compared.
\<close>

theorem C8_rapid_commits_permutation:
  "mset commits' = mset commits \<Longrightarrow>
   rapidCommits (analyzeCommitPatterns rt commits')
     = rapidCommits (analyzeCommitPatterns rt commits) \<and>
   rapidCommits (analyzeCommitPatterns_1 rt commits')
     = rapidCommits (analyzeCommitPatterns_1 rt commits)"
  using sort_times_mset [of commits' commits]
  by (simp add: analyze_fields analyze_1_fields)

text \<open>
  Three commits, ten minutes and one hundred seconds apart, and the same commits in
  another order: one pair of neighbours in time is less than five minutes apart.
\<close>

theorem C8_rapid_commits_permutation_witness:
  "mset [\<lparr>sha = ''c'', author_date = 1748649700000, message = ''fix'', verified = False\<rparr>,
         \<lparr>sha = ''a'', author_date = 1748649000000, message = ''init'', verified = True\<rparr>,
         \<lparr>sha = ''b'', author_date = 1748649600000, message = ''add'', verified = True\<rparr>]
   = mset [\<lparr>sha = ''a'', author_date = 1748649000000, message = ''init'', verified = True\<rparr>,
           \<lparr>sha = ''b'', author_date = 1748649600000, message = ''add'', verified = True\<rparr>,
           \<lparr>sha = ''c'', author_date = 1748649700000, message = ''fix'', verified = False\<rparr>] \<and>
   rapidCommits (analyzeCommitPatterns (utc Map.empty)
        [\<lparr>sha = ''c'', author_date = 1748649700000, message = ''fix'', verified = False\<rparr>,
         \<lparr>sha = ''a'', author_date = 1748649000000, message = ''init'', verified = True\<rparr>,
         \<lparr>sha = ''b'', author_date = 1748649600000, message = ''add'', verified = True\<rparr>]) = 1 \<and>
   rapidCommits (analyzeCommitPatterns (utc Map.empty)
        [\<lparr>sha = ''a'', author_date = 1748649000000, message = ''init'', verified = True\<rparr>,
         \<lparr>sha = ''b'', author_date = 1748649600000, message = ''add'', verified = True\<rparr>,
         \<lparr>sha = ''c'', author_date = 1748649700000, message = ''fix'', verified = False\<rparr>]) = 1"
proof -
  let ?a = "\<lparr>sha = ''a'', author_date = 1748649000000, message = ''init'', verified = True\<rparr>"
  let ?b = "\<lparr>sha = ''b'', author_date = 1748649600000, message = ''add'', verified = True\<rparr>"
  let ?c = "\<lparr>sha = ''c'', author_date = 1748649700000, message = ''fix'', verified = False\<rparr>"
  have perm: "mset [?c, ?a, ?b] = mset [?a, ?b, ?c]" by simp
  have sorted_order: "rapidCommits (analyzeCommitPatterns (utc Map.empty) [?a, ?b, ?c]) = 1"
    by code_simp
  from C8_rapid_commits_permutation [OF perm, of "utc Map.empty"] perm sorted_order
  show ?thesis by (simp only: simp_thms)
qed

subsection \<open>The opinion of analyzeWithGemini\<close>

lemma ensureArray_frame:
  assumes "ensureArray rt f a = Inr a'"
  shows "map_of a' f \<noteq> None" and "g \<noteq> f \<Longrightarrow> map_of a' g = map_of a g"
  using assms
  by (auto simp: ensureArray_def update_conv' split: option.splits json.splits)

lemma ensureNumber_likelihood:
  assumes "ensureNumber rt estimate a = Inr a'"
  shows "isNumber (map_of a' ''likelihood'')"
    and "g \<noteq> ''likelihood'' \<Longrightarrow> map_of a' g = map_of a g"
  using assms
  by (auto simp: ensureNumber_def isNumber_def update_conv' split: option.splits json.splits)

lemma ensureNumber_coerced:
  assumes "ensureNumber rt estimate a = Inr a'"
    and "map_of a ''likelihood'' = Some v" and "\<not> isNumber (Some v)"
  shows "\<exists>s. js_String rt v = Some s \<and>
           map_of a' ''likelihood'' =
             Some (JNumber (Num (of_int (case parseInt s of
                                           None \<Rightarrow> estimate
                                         | Some i \<Rightarrow> if i = 0 then estimate else i))))"
  using assms
  by (auto simp: ensureNumber_def isNumber_def String_of_def update_conv'
           split: option.splits json.splits)

lemma hasFields_iff:
  "hasFields a \<longleftrightarrow>
     map_of a ''summary'' \<noteq> None \<and> map_of a ''likelihood'' \<noteq> None \<and>
     map_of a ''keyFindings'' \<noteq> None \<and> map_of a ''recommendations'' \<noteq> None \<and>
     map_of a ''confidence'' \<noteq> None"
  by (simp add: hasFields_def requiredFields_def)

lemma isNumber_not_None: "isNumber v \<Longrightarrow> v \<noteq> None"
  by (auto simp: isNumber_def split: option.splits)

lemma coercion_chain:
  assumes "hasFields p0"
    and "ensureArray rt ''keyFindings'' p0 = Inr p1"
    and "ensureArray rt ''recommendations'' p1 = Inr p2"
    and "ensureNumber rt estimate p2 = Inr p3"
  shows "hasFields p3 \<and> isNumber (map_of p3 ''likelihood'')"
proof -
  note f1 = ensureArray_frame [OF assms(2)]
  note f2 = ensureArray_frame [OF assms(3)]
  note f3 = ensureNumber_likelihood [OF assms(4)]
  have "map_of p3 ''summary'' = map_of p0 ''summary''"
    by (simp add: f1(2) f2(2) f3(2))
  moreover have "map_of p3 ''confidence'' = map_of p0 ''confidence''"
    by (simp add: f1(2) f2(2) f3(2))
  moreover have "map_of p3 ''keyFindings'' = map_of p1 ''keyFindings''"
    by (simp add: f2(2) f3(2))
  moreover have "map_of p3 ''recommendations'' = map_of p2 ''recommendations''"
    by (simp add: f3(2))
  moreover note f1(1) f2(1) f3(1) isNumber_not_None [OF f3(1)] assms(1)
  ultimately show ?thesis
    by (simp add: hasFields_iff)
qed

lemma validConfidence_level:
  "validConfidence (Some (JString (if c1 then ''high'' else if c2 then ''medium'' else ''low'')))"
  by (simp add: validConfidence_def)

lemma confidence_step:
  assumes "hasFields p3" and "isNumber (map_of p3 ''likelihood'')"
    and "validConfidence (Some (JString level))"
    and "r = (if \<not> validConfidence (map_of p3 ''confidence'')
              then AList.update ''confidence'' (JString level) p3 else p3)"
  shows "hasFields r \<and> isNumber (map_of r ''likelihood'') \<and>
         validConfidence (map_of r ''confidence'')"
  using assms by (auto simp: hasFields_iff update_conv')

lemma parseAnalysis_steps:
  assumes "parseAnalysis rt patterns cleanedText = Inr a"
  obtains p0 p1 p2 p3 where
    "JSON_parse rt cleanedText = Some (JObject p0)"
    and "hasFields p0"
    and "ensureArray rt ''keyFindings'' p0 = Inr p1"
    and "ensureArray rt ''recommendations'' p1 = Inr p2"
    and "ensureNumber rt
           (min (githubVerifiedPercentage patterns + rapidCommits patterns) 100) p2 = Inr p3"
    and "a = (if \<not> validConfidence (map_of p3 ''confidence'')
              then AList.update ''confidence''
                     (JString (if js_gt (map_of p3 ''likelihood'') 80 then ''high''
                               else if js_gt (map_of p3 ''likelihood'') 60 then ''medium''
                               else ''low'')) p3
              else p3)"
  using assms
  by (auto simp: parseAnalysis_def hasFields_def
           split: option.splits json.splits if_splits sum.splits)

lemma parseAnalysis_1_steps:
  assumes "parseAnalysis_1 rt patterns cleanedText = Inr a"
  obtains p0 p1 p2 p3 where
    "JSON_parse rt cleanedText = Some (JObject p0)"
    and "hasFields p0"
    and "ensureArray rt ''keyFindings'' p0 = Inr p1"
    and "ensureArray rt ''recommendations'' p1 = Inr p2"
    and "ensureNumber rt (githubVerifiedPercentage patterns) p2 = Inr p3"
    and "a = (if \<not> validConfidence (map_of p3 ''confidence'')
              then AList.update ''confidence''
                     (JString (if githubVerifiedPercentage patterns > 80 then ''high''
                               else if githubVerifiedPercentage patterns > 60 then ''medium''
                               else ''low'')) p3
              else p3)"
  using assms
  by (auto simp: parseAnalysis_1_def hasFields_def
           split: option.splits json.splits if_splits sum.splits)

lemma parseAnalysis_valid:
  assumes "parseAnalysis rt patterns cleanedText = Inr a"
  shows "hasFields a \<and> isNumber (map_of a ''likelihood'') \<and>
         validConfidence (map_of a ''confidence'')"
proof -
  from assms obtain p0 p1 p2 p3 where
    p0: "hasFields p0"
    and p1: "ensureArray rt ''keyFindings'' p0 = Inr p1"
    and p2: "ensureArray rt ''recommendations'' p1 = Inr p2"
    and p3: "ensureNumber rt
               (min (githubVerifiedPercentage patterns + rapidCommits patterns) 100) p2 = Inr p3"
    and a: "a = (if \<not> validConfidence (map_of p3 ''confidence'')
                 then AList.update ''confidence''
                        (JString (if js_gt (map_of p3 ''likelihood'') 80 then ''high''
                                  else if js_gt (map_of p3 ''likelihood'') 60 then ''medium''
                                  else ''low'')) p3
                 else p3)"
    by (rule parseAnalysis_steps)
  from coercion_chain [OF p0 p1 p2 p3] validConfidence_level a show ?thesis
    by (intro confidence_step) auto
qed

lemma parseAnalysis_1_valid:
  assumes "parseAnalysis_1 rt patterns cleanedText = Inr a"
  shows "hasFields a \<and> isNumber (map_of a ''likelihood'') \<and>
         validConfidence (map_of a ''confidence'')"
proof -
  from assms obtain p0 p1 p2 p3 where
    p0: "hasFields p0"
    and p1: "ensureArray rt ''keyFindings'' p0 = Inr p1"
    and p2: "ensureArray rt ''recommendations'' p1 = Inr p2"
    and p3: "ensureNumber rt (githubVerifiedPercentage patterns) p2 = Inr p3"
    and a: "a = (if \<not> validConfidence (map_of p3 ''confidence'')
                 then AList.update ''confidence''
                        (JString (if githubVerifiedPercentage patterns > 80 then ''high''
                                  else if githubVerifiedPercentage patterns > 60 then ''medium''
                                  else ''low'')) p3
                 else p3)"
    by (rule parseAnalysis_1_steps)
  from coercion_chain [OF p0 p1 p2 p3] validConfidence_level a show ?thesis
    by (intro confidence_step) auto
qed

lemma fallbackAnalysis_valid:
  "hasFields (fallbackAnalysis rt repoData patterns)"
  "isNumber (map_of (fallbackAnalysis rt repoData patterns) ''likelihood'')"
  "validConfidence (map_of (fallbackAnalysis rt repoData patterns) ''confidence'')"
  by (simp_all add: fallbackAnalysis_def hasFields_iff isNumber_def validConfidence_def)

lemma fallbackAnalysis_1_valid:
  "hasFields (fallbackAnalysis_1 rt repoData patterns)"
  "isNumber (map_of (fallbackAnalysis_1 rt repoData patterns) ''likelihood'')"
  "validConfidence (map_of (fallbackAnalysis_1 rt repoData patterns) ''confidence'')"
  by (simp_all add: fallbackAnalysis_1_def hasFields_iff isNumber_def validConfidence_def)

lemma fallbackAnalysis_likelihood:
  "map_of (fallbackAnalysis rt repoData patterns) ''likelihood'' =
     Some (JNumber (Num (min
          (of_int (githubVerifiedPercentage patterns) * (3 / 10) +
           of_int (rapidCommits patterns) * 2 +
           (if totalCommits patterns > 50 then 10 else 0)) 100)))"
  by (simp add: fallbackAnalysis_def)

lemma fallbackAnalysis_1_likelihood:
  "map_of (fallbackAnalysis_1 rt repoData patterns) ''likelihood'' =
     Some (JNumber (Num (of_int (min
          (githubVerifiedPercentage patterns + (if rapidCommits patterns > 10 then 15 else 0))
          100))))"
  by (simp add: fallbackAnalysis_1_def)

lemma fallbackAnalysis_confidence:
  "map_of (fallbackAnalysis rt repoData patterns) ''confidence'' =
     Some (JString (if rapidCommits patterns > 15 then ''high''
                    else if rapidCommits patterns > 7 then ''medium'' else ''low''))"
  by (simp add: fallbackAnalysis_def)

lemma fallbackAnalysis_1_confidence:
  "map_of (fallbackAnalysis_1 rt repoData patterns) ''confidence'' =
     Some (JString (if githubVerifiedPercentage patterns > 80 then ''high''
                    else if githubVerifiedPercentage patterns > 60 then ''medium''
                    else ''low''))"
  by (simp add: fallbackAnalysis_1_def)

lemma fallback_likelihood_range:
  assumes "0 \<le> githubVerifiedPercentage patterns" and "0 \<le> rapidCommits patterns"
  shows "inPercentRange (map_of (fallbackAnalysis rt repoData patterns) ''likelihood'')"
proof -
  from assms have "0 \<le> (of_int (githubVerifiedPercentage patterns) :: rat) * (3 / 10)"
    and "0 \<le> (of_int (rapidCommits patterns) :: rat) * 2"
    by simp_all
  then show ?thesis
    by (simp add: fallbackAnalysis_likelihood inPercentRange_def)
qed

lemma fallback_1_likelihood_range:
  assumes "0 \<le> githubVerifiedPercentage patterns"
  shows "inPercentRange (map_of (fallbackAnalysis_1 rt repoData patterns) ''likelihood'') \<and>
         isIntegerValue (map_of (fallbackAnalysis_1 rt repoData patterns) ''likelihood'')"
  using assms
  by (simp add: fallbackAnalysis_1_likelihood inPercentRange_def isIntegerValue_def)

lemma analyzeWithGemini_cases:
  "(isl (tryAnalysis rt patterns reply) \<and>
      analyzeWithGemini rt repoData patterns reply = fallbackAnalysis rt repoData patterns) \<or>
   (\<exists>aiText. reply = AiText aiText \<and>
      parseAnalysis rt patterns (cleanText aiText)
        = Inr (analyzeWithGemini rt repoData patterns reply))"
  by (auto simp: analyzeWithGemini_def tryAnalysis_def
           split: gemini_reply.splits sum.splits if_splits)

lemma analyzeWithGemini_1_cases:
  "(isl (tryAnalysis_1 rt patterns reply) \<and>
      analyzeWithGemini_1 rt repoData patterns reply = fallbackAnalysis_1 rt repoData patterns) \<or>
   (\<exists>aiText. reply = AiText aiText \<and>
      parseAnalysis_1 rt patterns (cleanText aiText)
        = Inr (analyzeWithGemini_1 rt repoData patterns reply))"
  by (auto simp: analyzeWithGemini_1_def tryAnalysis_1_def
           split: gemini_reply.splits sum.splits if_splits)

lemma analyzeWithGemini_likelihood:
  "hasFields (analyzeWithGemini rt repoData patterns reply) \<and>
   isNumber (map_of (analyzeWithGemini rt repoData patterns reply) ''likelihood'') \<and>
   validConfidence (map_of (analyzeWithGemini rt repoData patterns reply) ''confidence'')"
  using analyzeWithGemini_cases [of rt patterns reply repoData]
    fallbackAnalysis_valid [of rt repoData patterns]
  by (auto dest: parseAnalysis_valid)

lemma analyzeWithGemini_1_likelihood:
  "hasFields (analyzeWithGemini_1 rt repoData patterns reply) \<and>
   isNumber (map_of (analyzeWithGemini_1 rt repoData patterns reply) ''likelihood'') \<and>
   validConfidence (map_of (analyzeWithGemini_1 rt repoData patterns reply) ''confidence'')"
  using analyzeWithGemini_1_cases [of rt patterns reply repoData]
    fallbackAnalysis_1_valid [of rt repoData patterns]
  by (auto dest: parseAnalysis_1_valid)

lemma tryAnalysis_Inl:
  "isl (tryAnalysis rt patterns reply) \<Longrightarrow>
   analyzeWithGemini rt repoData patterns reply = fallbackAnalysis rt repoData patterns"
  by (auto simp: analyzeWithGemini_def split: sum.splits)

lemma tryAnalysis_1_Inl:
  "isl (tryAnalysis_1 rt patterns reply) \<Longrightarrow>
   analyzeWithGemini_1 rt repoData patterns reply = fallbackAnalysis_1 rt repoData patterns"
  by (auto simp: analyzeWithGemini_1_def split: sum.splits)

lemma tryAnalysis_fails:
  "isl (tryAnalysis rt patterns CallFailed)"
  "isl (tryAnalysis rt patterns (AiText []))"
  "JSON_parse rt (cleanText aiText) = None \<Longrightarrow> isl (tryAnalysis rt patterns (AiText aiText))"
  by (simp_all add: tryAnalysis_def parseAnalysis_def)

lemma tryAnalysis_1_fails:
  "isl (tryAnalysis_1 rt patterns CallFailed)"
  "isl (tryAnalysis_1 rt patterns (AiText []))"
  "JSON_parse rt (cleanText aiText) = None \<Longrightarrow> isl (tryAnalysis_1 rt patterns (AiText aiText))"
  by (simp_all add: tryAnalysis_1_def parseAnalysis_1_def)

lemma ensureArray_array:
  "isArray (map_of a f) \<Longrightarrow> ensureArray rt f a = Inr a"
  by (auto simp: ensureArray_def isArray_def split: option.splits json.splits)

lemma ensureNumber_number:
  "map_of a ''likelihood'' = Some (JNumber n) \<Longrightarrow> ensureNumber rt estimate a = Inr a"
  by (simp add: ensureNumber_def)

lemma confidence_keeps_likelihood:
  "map_of (if \<not> validConfidence (map_of p ''confidence'')
           then AList.update ''confidence'' (JString level) p else p) ''likelihood''
     = map_of p ''likelihood''"
  by (simp add: update_conv')

lemma parseAnalysis_missing:
  assumes "JSON_parse rt cleanedText = Some v"
    and "\<not> isObject v \<or> (\<exists>parsed. v = JObject parsed \<and> \<not> hasFields parsed)"
  shows "isl (parseAnalysis rt patterns cleanedText)"
    and "isl (parseAnalysis_1 rt patterns cleanedText)"
  using assms
  by (auto simp: parseAnalysis_def parseAnalysis_1_def hasFields_def isObject_def
           split: json.splits)

lemma tryAnalysis_parse:
  "isl (tryAnalysis rt patterns (AiText aiText)) \<longleftrightarrow>
     aiText = [] \<or> isl (parseAnalysis rt patterns (cleanText aiText))"
  "isl (tryAnalysis_1 rt patterns (AiText aiText)) \<longleftrightarrow>
     aiText = [] \<or> isl (parseAnalysis_1 rt patterns (cleanText aiText))"
  by (auto simp: tryAnalysis_def tryAnalysis_1_def split: sum.splits)

lemma analyzeWithGemini_parsed:
  "\<not> isl (tryAnalysis rt patterns (AiText aiText)) \<Longrightarrow>
   parseAnalysis rt patterns (cleanText aiText)
     = Inr (analyzeWithGemini rt repoData patterns (AiText aiText))"
  "\<not> isl (tryAnalysis_1 rt patterns (AiText aiText)) \<Longrightarrow>
   parseAnalysis_1 rt patterns (cleanText aiText)
     = Inr (analyzeWithGemini_1 rt repoData patterns (AiText aiText))"
  by (auto simp: analyzeWithGemini_def analyzeWithGemini_1_def tryAnalysis_def tryAnalysis_1_def
           split: sum.splits if_splits)

lemma number_as_received:
  assumes "\<not> isl (tryAnalysis rt patterns (AiText aiText))"
    and "JSON_parse rt (cleanText aiText) = Some (JObject parsed)"
    and "map_of parsed ''likelihood'' = Some (JNumber n)"
  shows "map_of (analyzeWithGemini rt repoData patterns (AiText aiText)) ''likelihood''
           = Some (JNumber n)"
proof -
  from analyzeWithGemini_parsed(1) [OF assms(1), of repoData] obtain p0 p1 p2 p3 where
    p0: "JSON_parse rt (cleanText aiText) = Some (JObject p0)"
    and p1: "ensureArray rt ''keyFindings'' p0 = Inr p1"
    and p2: "ensureArray rt ''recommendations'' p1 = Inr p2"
    and p3: "ensureNumber rt
               (min (githubVerifiedPercentage patterns + rapidCommits patterns) 100) p2 = Inr p3"
    and a: "analyzeWithGemini rt repoData patterns (AiText aiText) =
              (if \<not> validConfidence (map_of p3 ''confidence'')
               then AList.update ''confidence''
                      (JString (if js_gt (map_of p3 ''likelihood'') 80 then ''high''
                                else if js_gt (map_of p3 ''likelihood'') 60 then ''medium''
                                else ''low'')) p3
               else p3)"
    by (auto elim: parseAnalysis_steps)
  from assms(2) p0 have "p0 = parsed" by simp
  with assms(3) have l2: "map_of p2 ''likelihood'' = Some (JNumber n)"
    by (simp add: ensureArray_frame(2) [OF p1] ensureArray_frame(2) [OF p2])
  with p3 have "p3 = p2" by (simp add: ensureNumber_number)
  with l2 show ?thesis
    unfolding a by (simp only: confidence_keeps_likelihood)
qed

lemma number_as_received_1:
  assumes "\<not> isl (tryAnalysis_1 rt patterns (AiText aiText))"
    and "JSON_parse rt (cleanText aiText) = Some (JObject parsed)"
    and "map_of parsed ''likelihood'' = Some (JNumber n)"
  shows "map_of (analyzeWithGemini_1 rt repoData patterns (AiText aiText)) ''likelihood''
           = Some (JNumber n)"
proof -
  from analyzeWithGemini_parsed(2) [OF assms(1), of repoData] obtain p0 p1 p2 p3 where
    p0: "JSON_parse rt (cleanText aiText) = Some (JObject p0)"
    and p1: "ensureArray rt ''keyFindings'' p0 = Inr p1"
    and p2: "ensureArray rt ''recommendations'' p1 = Inr p2"
    and p3: "ensureNumber rt (githubVerifiedPercentage patterns) p2 = Inr p3"
    and a: "analyzeWithGemini_1 rt repoData patterns (AiText aiText) =
              (if \<not> validConfidence (map_of p3 ''confidence'')
               then AList.update ''confidence''
                      (JString (if githubVerifiedPercentage patterns > 80 then ''high''
                                else if githubVerifiedPercentage patterns > 60 then ''medium''
                                else ''low'')) p3
               else p3)"
    by (auto elim: parseAnalysis_1_steps)
  from assms(2) p0 have "p0 = parsed" by simp
  with assms(3) have l2: "map_of p2 ''likelihood'' = Some (JNumber n)"
    by (simp add: ensureArray_frame(2) [OF p1] ensureArray_frame(2) [OF p2])
  with p3 have "p3 = p2" by (simp add: ensureNumber_number)
  with l2 show ?thesis
    unfolding a by (simp only: confidence_keeps_likelihood)
qed

lemma wellformed_returned:
  assumes "aiText \<noteq> []"
    and "JSON_parse rt (cleanText aiText) = Some (JObject parsed)"
    and "hasFields parsed" and "map_of parsed ''hasOwnProperty'' = None"
    and "isArray (map_of parsed ''keyFindings'')"
    and "isArray (map_of parsed ''recommendations'')"
    and "map_of parsed ''likelihood'' = Some (JNumber n)"
    and "validConfidence (map_of parsed ''confidence'')"
  shows "analyzeWithGemini rt repoData patterns (AiText aiText) = parsed"
    and "analyzeWithGemini_1 rt repoData patterns (AiText aiText) = parsed"
    and "\<not> isl (tryAnalysis rt patterns (AiText aiText))"
    and "\<not> isl (tryAnalysis_1 rt patterns (AiText aiText))"
proof -
  from assms(3) have all: "list_all (\<lambda>field. map_of parsed field \<noteq> None) requiredFields"
    by (simp add: hasFields_def)
  have parsed: "parseAnalysis rt patterns (cleanText aiText) = Inr parsed"
    using assms(2,4,8) all
    by (simp add: parseAnalysis_def ensureArray_array [OF assms(5)]
          ensureArray_array [OF assms(6)] ensureNumber_number [OF assms(7)])
  with assms(1) show "analyzeWithGemini rt repoData patterns (AiText aiText) = parsed"
    by (simp add: analyzeWithGemini_def tryAnalysis_def)
  from parsed assms(1) show "\<not> isl (tryAnalysis rt patterns (AiText aiText))"
    by (simp add: tryAnalysis_def)
  have parsed1: "parseAnalysis_1 rt patterns (cleanText aiText) = Inr parsed"
    using assms(2,4,8) all
    by (simp add: parseAnalysis_1_def ensureArray_array [OF assms(5)]
          ensureArray_array [OF assms(6)] ensureNumber_number [OF assms(7)])
  with assms(1) show "analyzeWithGemini_1 rt repoData patterns (AiText aiText) = parsed"
    by (simp add: analyzeWithGemini_1_def tryAnalysis_1_def)
  from parsed1 assms(1) show "\<not> isl (tryAnalysis_1 rt patterns (AiText aiText))"
    by (simp add: tryAnalysis_1_def)
qed

text \<open>
  Claim C1, as amended. For every reply of the service (a failed call or any text) and
  every runtime, \<open>analyzeWithGemini\<close> returns an object (it is a total function: every
  \<^verbatim>\<open>throw\<close> of its \<^verbatim>\<open>try\<close> block ends in the fallback) that has the five fields, whose
  likelihood is a number and whose confidence is one of low, medium and high.

  The \<^verbatim>\<open>try\<close> block throws for a failed call, for the empty text and for every text that
  \<^verbatim>\<open>JSON.parse\<close> rejects after cleaning. A text that parses to a value that is not an
  object, or to an object without one of the five fields, makes it throw too, and the
  opinion is then the fallback analysis. Whenever the \<^verbatim>\<open>try\<close> block throws, the opinion
  is the fallback analysis, and if the counters of the bundle are not negative its
  likelihood lies between 0 and 100; in part_001 it is an integer then.

  Whenever the \<^verbatim>\<open>try\<close> block does not throw and the likelihood of the parsed response
  is a number, the opinion has that number as its likelihood, whatever it is. For a
  response that is well formed (a text that is not empty and parses to an object with all
  five fields, no \<^verbatim>\<open>hasOwnProperty\<close> of its own, arrays for the findings and the
  recommendations, a number for the likelihood, a valid confidence) the \<^verbatim>\<open>try\<close> block
  does not throw, and the opinion is the response as it was parsed.

  Nothing is said of the range of a number that the service itself supplied, nor of
  integrality in part_000.
\<close>

theorem C1_opinion_always_returned:
  "hasFields (analyzeWithGemini rt repoData patterns reply) \<and>
   isNumber (map_of (analyzeWithGemini rt repoData patterns reply) ''likelihood'') \<and>
   validConfidence (map_of (analyzeWithGemini rt repoData patterns reply) ''confidence'') \<and>
   isl (tryAnalysis rt patterns CallFailed) \<and>
   isl (tryAnalysis rt patterns (AiText [])) \<and>
   (JSON_parse rt (cleanText aiText) = None \<longrightarrow> isl (tryAnalysis rt patterns (AiText aiText))) \<and>
   (JSON_parse rt (cleanText aiText) = Some v \<and> \<not> isObject v \<longrightarrow>
    isl (tryAnalysis rt patterns (AiText aiText)) \<and>
    analyzeWithGemini rt repoData patterns (AiText aiText)
      = fallbackAnalysis rt repoData patterns) \<and>
   (JSON_parse rt (cleanText aiText) = Some (JObject parsed) \<and> \<not> hasFields parsed \<longrightarrow>
    isl (tryAnalysis rt patterns (AiText aiText)) \<and>
    analyzeWithGemini rt repoData patterns (AiText aiText)
      = fallbackAnalysis rt repoData patterns) \<and>
   (isl (tryAnalysis rt patterns reply) \<longrightarrow>
    analyzeWithGemini rt repoData patterns reply = fallbackAnalysis rt repoData patterns) \<and>
   (isl (tryAnalysis rt patterns reply) \<and> 0 \<le> githubVerifiedPercentage patterns \<and>
      0 \<le> rapidCommits patterns \<longrightarrow>
    inPercentRange (map_of (analyzeWithGemini rt repoData patterns reply) ''likelihood'')) \<and>
   (\<not> isl (tryAnalysis rt patterns (AiText aiText)) \<and>
    JSON_parse rt (cleanText aiText) = Some (JObject parsed) \<and>
    map_of parsed ''likelihood'' = Some (JNumber n) \<longrightarrow>
    map_of (analyzeWithGemini rt repoData patterns (AiText aiText)) ''likelihood''
      = Some (JNumber n)) \<and>
   (aiText \<noteq> [] \<and> JSON_parse rt (cleanText aiText) = Some (JObject parsed) \<and>
    hasFields parsed \<and> map_of parsed ''hasOwnProperty'' = None \<and>
    isArray (map_of parsed ''keyFindings'') \<and> isArray (map_of parsed ''recommendations'') \<and>
    map_of parsed ''likelihood'' = Some (JNumber n) \<and>
    validConfidence (map_of parsed ''confidence'') \<longrightarrow>
    \<not> isl (tryAnalysis rt patterns (AiText aiText)) \<and>
    analyzeWithGemini rt repoData patterns (AiText aiText) = parsed) \<and>
   hasFields (analyzeWithGemini_1 rt repoData patterns reply) \<and>
   isNumber (map_of (analyzeWithGemini_1 rt repoData patterns reply) ''likelihood'') \<and>
   validConfidence (map_of (analyzeWithGemini_1 rt repoData patterns reply) ''confidence'') \<and>
   isl (tryAnalysis_1 rt patterns CallFailed) \<and>
   isl (tryAnalysis_1 rt patterns (AiText [])) \<and>
   (JSON_parse rt (cleanText aiText) = None \<longrightarrow>
    isl (tryAnalysis_1 rt patterns (AiText aiText))) \<and>
   (JSON_parse rt (cleanText aiText) = Some v \<and> \<not> isObject v \<longrightarrow>
    isl (tryAnalysis_1 rt patterns (AiText aiText)) \<and>
    analyzeWithGemini_1 rt repoData patterns (AiText aiText)
      = fallbackAnalysis_1 rt repoData patterns) \<and>
   (JSON_parse rt (cleanText aiText) = Some (JObject parsed) \<and> \<not> hasFields parsed \<longrightarrow>
    isl (tryAnalysis_1 rt patterns (AiText aiText)) \<and>
    analyzeWithGemini_1 rt repoData patterns (AiText aiText)
      = fallbackAnalysis_1 rt repoData patterns) \<and>
   (isl (tryAnalysis_1 rt patterns reply) \<longrightarrow>
    analyzeWithGemini_1 rt repoData patterns reply = fallbackAnalysis_1 rt repoData patterns) \<and>
   (isl (tryAnalysis_1 rt patterns reply) \<and> 0 \<le> githubVerifiedPercentage patterns \<longrightarrow>
    inPercentRange (map_of (analyzeWithGemini_1 rt repoData patterns reply) ''likelihood'') \<and>
    isIntegerValue (map_of (analyzeWithGemini_1 rt repoData patterns reply) ''likelihood'')) \<and>
   (\<not> isl (tryAnalysis_1 rt patterns (AiText aiText)) \<and>
    JSON_parse rt (cleanText aiText) = Some (JObject parsed) \<and>
    map_of parsed ''likelihood'' = Some (JNumber n) \<longrightarrow>
    map_of (analyzeWithGemini_1 rt repoData patterns (AiText aiText)) ''likelihood''
      = Some (JNumber n)) \<and>
   (aiText \<noteq> [] \<and> JSON_parse rt (cleanText aiText) = Some (JObject parsed) \<and>
    hasFields parsed \<and> map_of parsed ''hasOwnProperty'' = None \<and>
    isArray (map_of parsed ''keyFindings'') \<and> isArray (map_of parsed ''recommendations'') \<and>
    map_of parsed ''likelihood'' = Some (JNumber n) \<and>
    validConfidence (map_of parsed ''confidence'') \<longrightarrow>
    \<not> isl (tryAnalysis_1 rt patterns (AiText aiText)) \<and>
    analyzeWithGemini_1 rt repoData patterns (AiText aiText) = parsed)"
proof -
  have valid:
    "hasFields (analyzeWithGemini rt repoData patterns reply)"
    "isNumber (map_of (analyzeWithGemini rt repoData patterns reply) ''likelihood'')"
    "validConfidence (map_of (analyzeWithGemini rt repoData patterns reply) ''confidence'')"
    "hasFields (analyzeWithGemini_1 rt repoData patterns reply)"
    "isNumber (map_of (analyzeWithGemini_1 rt repoData patterns reply) ''likelihood'')"
    "validConfidence (map_of (analyzeWithGemini_1 rt repoData patterns reply) ''confidence'')"
    using analyzeWithGemini_likelihood [of rt repoData patterns reply]
      analyzeWithGemini_1_likelihood [of rt repoData patterns reply]
    by simp_all
  have throws:
    "isl (tryAnalysis rt patterns CallFailed)" "isl (tryAnalysis rt patterns (AiText []))"
    "JSON_parse rt (cleanText aiText) = None \<longrightarrow> isl (tryAnalysis rt patterns (AiText aiText))"
    "isl (tryAnalysis_1 rt patterns CallFailed)" "isl (tryAnalysis_1 rt patterns (AiText []))"
    "JSON_parse rt (cleanText aiText) = None \<longrightarrow> isl (tryAnalysis_1 rt patterns (AiText aiText))"
    by (simp_all add: tryAnalysis_fails tryAnalysis_1_fails)
  have missing:
    "JSON_parse rt (cleanText aiText) = Some v \<and> \<not> isObject v \<longrightarrow>
     isl (tryAnalysis rt patterns (AiText aiText)) \<and>
     analyzeWithGemini rt repoData patterns (AiText aiText)
       = fallbackAnalysis rt repoData patterns"
    "JSON_parse rt (cleanText aiText) = Some (JObject parsed) \<and> \<not> hasFields parsed \<longrightarrow>
     isl (tryAnalysis rt patterns (AiText aiText)) \<and>
     analyzeWithGemini rt repoData patterns (AiText aiText)
       = fallbackAnalysis rt repoData patterns"
    "JSON_parse rt (cleanText aiText) = Some v \<and> \<not> isObject v \<longrightarrow>
     isl (tryAnalysis_1 rt patterns (AiText aiText)) \<and>
     analyzeWithGemini_1 rt repoData patterns (AiText aiText)
       = fallbackAnalysis_1 rt repoData patterns"
    "JSON_parse rt (cleanText aiText) = Some (JObject parsed) \<and> \<not> hasFields parsed \<longrightarrow>
     isl (tryAnalysis_1 rt patterns (AiText aiText)) \<and>
     analyzeWithGemini_1 rt repoData patterns (AiText aiText)
       = fallbackAnalysis_1 rt repoData patterns"
    using parseAnalysis_missing [of rt "cleanText aiText" v patterns]
      parseAnalysis_missing [of rt "cleanText aiText" "JObject parsed" patterns]
    by (auto simp: tryAnalysis_parse tryAnalysis_Inl tryAnalysis_1_Inl)
  have fallback:
    "isl (tryAnalysis rt patterns reply) \<longrightarrow>
     analyzeWithGemini rt repoData patterns reply = fallbackAnalysis rt repoData patterns"
    "isl (tryAnalysis_1 rt patterns reply) \<longrightarrow>
     analyzeWithGemini_1 rt repoData patterns reply = fallbackAnalysis_1 rt repoData patterns"
    by (simp_all add: tryAnalysis_Inl tryAnalysis_1_Inl)
  have range: "isl (tryAnalysis rt patterns reply) \<and> 0 \<le> githubVerifiedPercentage patterns \<and>
      0 \<le> rapidCommits patterns \<longrightarrow>
    inPercentRange (map_of (analyzeWithGemini rt repoData patterns reply) ''likelihood'')"
    using fallback_likelihood_range [of patterns rt repoData]
    by (auto simp: tryAnalysis_Inl)
  have range1: "isl (tryAnalysis_1 rt patterns reply) \<and> 0 \<le> githubVerifiedPercentage patterns \<longrightarrow>
    inPercentRange (map_of (analyzeWithGemini_1 rt repoData patterns reply) ''likelihood'') \<and>
    isIntegerValue (map_of (analyzeWithGemini_1 rt repoData patterns reply) ''likelihood'')"
    using fallback_1_likelihood_range [of patterns rt repoData]
    by (auto simp: tryAnalysis_1_Inl)
  have received:
    "\<not> isl (tryAnalysis rt patterns (AiText aiText)) \<and>
     JSON_parse rt (cleanText aiText) = Some (JObject parsed) \<and>
     map_of parsed ''likelihood'' = Some (JNumber n) \<longrightarrow>
     map_of (analyzeWithGemini rt repoData patterns (AiText aiText)) ''likelihood''
       = Some (JNumber n)"
    "\<not> isl (tryAnalysis_1 rt patterns (AiText aiText)) \<and>
     JSON_parse rt (cleanText aiText) = Some (JObject parsed) \<and>
     map_of parsed ''likelihood'' = Some (JNumber n) \<longrightarrow>
     map_of (analyzeWithGemini_1 rt repoData patterns (AiText aiText)) ''likelihood''
       = Some (JNumber n)"
    using number_as_received [of rt patterns aiText parsed n repoData]
      number_as_received_1 [of rt patterns aiText parsed n repoData]
    by blast+
  have wellformed:
    "aiText \<noteq> [] \<and> JSON_parse rt (cleanText aiText) = Some (JObject parsed) \<and>
     hasFields parsed \<and> map_of parsed ''hasOwnProperty'' = None \<and>
     isArray (map_of parsed ''keyFindings'') \<and> isArray (map_of parsed ''recommendations'') \<and>
     map_of parsed ''likelihood'' = Some (JNumber n) \<and>
     validConfidence (map_of parsed ''confidence'') \<longrightarrow>
     \<not> isl (tryAnalysis rt patterns (AiText aiText)) \<and>
     analyzeWithGemini rt repoData patterns (AiText aiText) = parsed"
    "aiText \<noteq> [] \<and> JSON_parse rt (cleanText aiText) = Some (JObject parsed) \<and>
     hasFields parsed \<and> map_of parsed ''hasOwnProperty'' = None \<and>
     isArray (map_of parsed ''keyFindings'') \<and> isArray (map_of parsed ''recommendations'') \<and>
     map_of parsed ''likelihood'' = Some (JNumber n) \<and>
     validConfidence (map_of parsed ''confidence'') \<longrightarrow>
     \<not> isl (tryAnalysis_1 rt patterns (AiText aiText)) \<and>
     analyzeWithGemini_1 rt repoData patterns (AiText aiText) = parsed"
    using wellformed_returned(1,3) [of aiText rt parsed n] wellformed_returned(2,4) [of aiText rt parsed n]
    by blast+
  from valid throws missing fallback range range1 received wellformed
  show ?thesis by (intro conjI)
qed

text \<open>
  Three replies with the bundle of the third scenario, in both copies. The text
  \<^verbatim>\<open>not json at all\<close> does not parse: the \<^verbatim>\<open>try\<close> block throws, the opinion is the
  fallback, in range, with the likelihood \<open>85 * 0.3 + 12 * 2 = 49.5\<close> in part_000 and
  \<open>min (85 + 15) 100 = 100\<close> in part_001. The text \<^verbatim>\<open>{"summary":"s"}\<close> parses to an
  object without four of the fields: the \<^verbatim>\<open>try\<close> block throws and the opinion is the
  same fallback. For the well-formed reply with the likelihood 150 the \<^verbatim>\<open>try\<close> block
  does not throw, and the reply is returned as parsed, with the likelihood 150.
\<close>

theorem C1_opinion_always_returned_witness:
  "JSON_parse (utc Map.empty) (cleanText ''not json at all'') = None \<and>
   isl (tryAnalysis (utc Map.empty) scenarioBundle (AiText ''not json at all'')) \<and>
   isl (tryAnalysis_1 (utc Map.empty) scenarioBundle (AiText ''not json at all'')) \<and>
   analyzeWithGemini (utc Map.empty) scenarioRepo scenarioBundle (AiText ''not json at all'')
     = fallbackAnalysis (utc Map.empty) scenarioRepo scenarioBundle \<and>
   inPercentRange (map_of (analyzeWithGemini (utc Map.empty) scenarioRepo scenarioBundle
                (AiText ''not json at all'')) ''likelihood'') \<and>
   map_of (analyzeWithGemini (utc Map.empty) scenarioRepo scenarioBundle
                (AiText ''not json at all'')) ''likelihood'' = Some (JNumber (Num (99 / 2))) \<and>
   hasFields (analyzeWithGemini_1 (utc Map.empty) scenarioRepo scenarioBundle
                (AiText ''not json at all'')) \<and>
   inPercentRange (map_of (analyzeWithGemini_1 (utc Map.empty) scenarioRepo scenarioBundle
                (AiText ''not json at all'')) ''likelihood'') \<and>
   isIntegerValue (map_of (analyzeWithGemini_1 (utc Map.empty) scenarioRepo scenarioBundle
                (AiText ''not json at all'')) ''likelihood'') \<and>
   map_of (analyzeWithGemini_1 (utc Map.empty) scenarioRepo scenarioBundle
                (AiText ''not json at all'')) ''likelihood'' = Some (JNumber (Num 100)) \<and>
   JSON_parse (utc [''{\"summary\":\"s\"}'' \<mapsto> JObject [(''summary'', JString ''s'')]])
       (cleanText ''{\"summary\":\"s\"}'') = Some (JObject [(''summary'', JString ''s'')]) \<and>
   \<not> hasFields [(''summary'', JString ''s'')] \<and>
   isl (tryAnalysis (utc [''{\"summary\":\"s\"}'' \<mapsto> JObject [(''summary'', JString ''s'')]])
          scenarioBundle (AiText ''{\"summary\":\"s\"}'')) \<and>
   analyzeWithGemini (utc [''{\"summary\":\"s\"}'' \<mapsto> JObject [(''summary'', JString ''s'')]])
       scenarioRepo scenarioBundle (AiText ''{\"summary\":\"s\"}'')
     = fallbackAnalysis (utc [''{\"summary\":\"s\"}'' \<mapsto> JObject [(''summary'', JString ''s'')]])
         scenarioRepo scenarioBundle \<and>
   analyzeWithGemini_1 (utc [''{\"summary\":\"s\"}'' \<mapsto> JObject [(''summary'', JString ''s'')]])
       scenarioRepo scenarioBundle (AiText ''{\"summary\":\"s\"}'')
     = fallbackAnalysis_1 (utc [''{\"summary\":\"s\"}'' \<mapsto> JObject [(''summary'', JString ''s'')]])
         scenarioRepo scenarioBundle \<and>
   JSON_parse (utc [opinionText ''150'' ''high'' \<mapsto> opinionValue (JNumber (Num 150)) ''high''])
       (cleanText (opinionText ''150'' ''high'')) = Some (opinionValue (JNumber (Num 150)) ''high'') \<and>
   \<not> isl (tryAnalysis
       (utc [opinionText ''150'' ''high'' \<mapsto> opinionValue (JNumber (Num 150)) ''high''])
       scenarioBundle (AiText (opinionText ''150'' ''high''))) \<and>
   \<not> isl (tryAnalysis_1
       (utc [opinionText ''150'' ''high'' \<mapsto> opinionValue (JNumber (Num 150)) ''high''])
       scenarioBundle (AiText (opinionText ''150'' ''high''))) \<and>
   JObject (analyzeWithGemini
       (utc [opinionText ''150'' ''high'' \<mapsto> opinionValue (JNumber (Num 150)) ''high''])
       scenarioRepo scenarioBundle (AiText (opinionText ''150'' ''high'')))
     = opinionValue (JNumber (Num 150)) ''high'' \<and>
   JObject (analyzeWithGemini_1
       (utc [opinionText ''150'' ''high'' \<mapsto> opinionValue (JNumber (Num 150)) ''high''])
       scenarioRepo scenarioBundle (AiText (opinionText ''150'' ''high'')))
     = opinionValue (JNumber (Num 150)) ''high'' \<and>
   map_of (analyzeWithGemini
       (utc [opinionText ''150'' ''high'' \<mapsto> opinionValue (JNumber (Num 150)) ''high''])
       scenarioRepo scenarioBundle (AiText (opinionText ''150'' ''high''))) ''likelihood''
     = Some (JNumber (Num 150)) \<and>
   map_of (analyzeWithGemini_1
       (utc [opinionText ''150'' ''high'' \<mapsto> opinionValue (JNumber (Num 150)) ''high''])
       scenarioRepo scenarioBundle (AiText (opinionText ''150'' ''high''))) ''likelihood''
     = Some (JNumber (Num 150))"
proof -
  let ?short = "''{\"summary\":\"s\"}''"
  let ?rtS = "utc [?short \<mapsto> JObject [(''summary'', JString ''s'')]]"
  let ?txt = "opinionText ''150'' ''high''"
  let ?rtW = "utc [?txt \<mapsto> opinionValue (JNumber (Num 150)) ''high'']"
  let ?parsed = "[(''summary'', JString ''Looks generated''), (''likelihood'', JNumber (Num 150)),
                  (''keyFindings'', JArray [JString ''a'']),
                  (''recommendations'', JArray [JString ''b'']),
                  (''confidence'', JString ''high'')]"
  have rejected: "JSON_parse (utc Map.empty) (cleanText ''not json at all'') = None"
    by (simp add: utc_def)
  have counters: "0 \<le> githubVerifiedPercentage scenarioBundle"
    "0 \<le> rapidCommits scenarioBundle"
    by (simp_all add: scenarioBundle_def)
  have computed:
    "map_of (fallbackAnalysis (utc Map.empty) scenarioRepo scenarioBundle) ''likelihood''
       = Some (JNumber (Num (99 / 2)))"
    "map_of (fallbackAnalysis_1 (utc Map.empty) scenarioRepo scenarioBundle) ''likelihood''
       = Some (JNumber (Num 100))"
    by (simp_all add: fallbackAnalysis_likelihood fallbackAnalysis_1_likelihood scenarioBundle_def)
  note unparsable = C1_opinion_always_returned
         [of "utc Map.empty" scenarioRepo scenarioBundle "AiText ''not json at all''"
             "''not json at all''" JNull "[]" "Num 0"]
  have thrown:
    "isl (tryAnalysis (utc Map.empty) scenarioBundle (AiText ''not json at all''))"
    "isl (tryAnalysis_1 (utc Map.empty) scenarioBundle (AiText ''not json at all''))"
    using unparsable by (simp_all only: simp_thms rejected)
  have fb:
    "analyzeWithGemini (utc Map.empty) scenarioRepo scenarioBundle (AiText ''not json at all'')
       = fallbackAnalysis (utc Map.empty) scenarioRepo scenarioBundle"
    "analyzeWithGemini_1 (utc Map.empty) scenarioRepo scenarioBundle (AiText ''not json at all'')
       = fallbackAnalysis_1 (utc Map.empty) scenarioRepo scenarioBundle"
    using unparsable by (simp_all only: simp_thms thrown)
  have in_range:
    "inPercentRange (map_of (analyzeWithGemini (utc Map.empty) scenarioRepo scenarioBundle
       (AiText ''not json at all'')) ''likelihood'')"
    "hasFields (analyzeWithGemini_1 (utc Map.empty) scenarioRepo scenarioBundle
       (AiText ''not json at all''))"
    "inPercentRange (map_of (analyzeWithGemini_1 (utc Map.empty) scenarioRepo scenarioBundle
       (AiText ''not json at all'')) ''likelihood'')"
    "isIntegerValue (map_of (analyzeWithGemini_1 (utc Map.empty) scenarioRepo scenarioBundle
       (AiText ''not json at all'')) ''likelihood'')"
    using unparsable by (simp_all only: simp_thms fb thrown counters)
  have cleanedS: "cleanText ?short = ?short"
    by code_simp
  have parsedS: "JSON_parse ?rtS (cleanText ?short) = Some (JObject [(''summary'', JString ''s'')])"
    by (simp add: cleanedS utc_def)
  have lacking: "\<not> hasFields [(''summary'', JString ''s'')]"
    by (simp add: hasFields_def requiredFields_def)
  note short = C1_opinion_always_returned
         [of ?rtS scenarioRepo scenarioBundle "AiText ?short" ?short
             "JObject [(''summary'', JString ''s'')]" "[(''summary'', JString ''s'')]" "Num 0"]
  have thrownS:
    "isl (tryAnalysis ?rtS scenarioBundle (AiText ?short))"
    "isl (tryAnalysis_1 ?rtS scenarioBundle (AiText ?short))"
    using short by (simp_all only: simp_thms parsedS lacking)
  have fbS:
    "analyzeWithGemini ?rtS scenarioRepo scenarioBundle (AiText ?short)
       = fallbackAnalysis ?rtS scenarioRepo scenarioBundle"
    "analyzeWithGemini_1 ?rtS scenarioRepo scenarioBundle (AiText ?short)
       = fallbackAnalysis_1 ?rtS scenarioRepo scenarioBundle"
    using short by (simp_all only: simp_thms thrownS)
  have cleanedW: "cleanText ?txt = ?txt"
    by code_simp
  have parsedW: "JSON_parse ?rtW (cleanText ?txt) = Some (JObject ?parsed)"
    by (simp add: cleanedW utc_def opinionValue_def)
  have wf: "?txt \<noteq> []" "hasFields ?parsed" "map_of ?parsed ''hasOwnProperty'' = None"
    "isArray (map_of ?parsed ''keyFindings'')" "isArray (map_of ?parsed ''recommendations'')"
    "map_of ?parsed ''likelihood'' = Some (JNumber (Num 150))"
    "validConfidence (map_of ?parsed ''confidence'')"
    by (simp_all add: opinionText_def hasFields_def requiredFields_def isArray_def
          validConfidence_def)
  have parsedW': "JSON_parse ?rtW (cleanText ?txt) = Some (opinionValue (JNumber (Num 150)) ''high'')"
    by (simp add: cleanedW utc_def)
  note well = C1_opinion_always_returned
         [of ?rtW scenarioRepo scenarioBundle "AiText ?txt" ?txt "JObject ?parsed" ?parsed
             "Num 150"]
  have kept:
    "\<not> isl (tryAnalysis ?rtW scenarioBundle (AiText ?txt))"
    "\<not> isl (tryAnalysis_1 ?rtW scenarioBundle (AiText ?txt))"
    using well by (simp_all only: simp_thms parsedW wf)
  have returned:
    "analyzeWithGemini ?rtW scenarioRepo scenarioBundle (AiText ?txt) = ?parsed"
    "analyzeWithGemini_1 ?rtW scenarioRepo scenarioBundle (AiText ?txt) = ?parsed"
    using well by (simp_all only: simp_thms parsedW wf)
  have as_value:
    "JObject (analyzeWithGemini ?rtW scenarioRepo scenarioBundle (AiText ?txt))
       = opinionValue (JNumber (Num 150)) ''high''"
    "JObject (analyzeWithGemini_1 ?rtW scenarioRepo scenarioBundle (AiText ?txt))
       = opinionValue (JNumber (Num 150)) ''high''"
    "map_of (analyzeWithGemini ?rtW scenarioRepo scenarioBundle (AiText ?txt)) ''likelihood''
       = Some (JNumber (Num 150))"
    "map_of (analyzeWithGemini_1 ?rtW scenarioRepo scenarioBundle (AiText ?txt)) ''likelihood''
       = Some (JNumber (Num 150))"
    by (simp_all only: returned) (simp_all add: opinionValue_def)
  have likelihoods:
    "map_of (analyzeWithGemini (utc Map.empty) scenarioRepo scenarioBundle
                (AiText ''not json at all'')) ''likelihood'' = Some (JNumber (Num (99 / 2)))"
    "map_of (analyzeWithGemini_1 (utc Map.empty) scenarioRepo scenarioBundle
                (AiText ''not json at all'')) ''likelihood'' = Some (JNumber (Num 100))"
    by (simp_all only: fb computed)
  show ?thesis
    by (intro conjI rejected thrown fb in_range likelihoods parsedS lacking thrownS(1) fbS
          parsedW' kept as_value)
qed

text \<open>
  Against claim C1 as stated. With the bundle of the third scenario and a failed call,
  part_000 returns the likelihood 49.5, which is not an integer. For the reply
  \<^verbatim>\<open>{"summary":"Looks generated","likelihood":150,...}\<close>, which parses and has all
  fields, both copies return the likelihood 150 as received.
\<close>

theorem C1_opinion_always_returned_counterexample:
  "\<not> validOpinion (analyzeWithGemini (utc Map.empty) scenarioRepo scenarioBundle CallFailed) \<and>
   \<not> isIntegerValue (map_of (analyzeWithGemini (utc Map.empty) scenarioRepo scenarioBundle
                                 CallFailed) ''likelihood'') \<and>
   \<not> validOpinion (analyzeWithGemini
        (utc [opinionText ''150'' ''high'' \<mapsto> opinionValue (JNumber (Num 150)) ''high''])
        scenarioRepo scenarioBundle (AiText (opinionText ''150'' ''high''))) \<and>
   \<not> validOpinion (analyzeWithGemini_1
        (utc [opinionText ''150'' ''high'' \<mapsto> opinionValue (JNumber (Num 150)) ''high''])
        scenarioRepo scenarioBundle (AiText (opinionText ''150'' ''high''))) \<and>
   map_of (analyzeWithGemini_1
        (utc [opinionText ''150'' ''high'' \<mapsto> opinionValue (JNumber (Num 150)) ''high''])
        scenarioRepo scenarioBundle (AiText (opinionText ''150'' ''high''))) ''likelihood''
     = Some (JNumber (Num 150))"
  by code_simp

text \<open>
  Claim C9, as amended. Whenever the \<^verbatim>\<open>try\<close> block throws, and so for every text that
  \<^verbatim>\<open>JSON.parse\<close> rejects, the confidence of the opinion is that of the fallback. In
  part_000 it is computed from \<open>rapidCommits\<close>: high above 15, medium above 7, low
  otherwise. In part_001 it is computed from the verification percentage: high above 80,
  medium above 60, low otherwise.
\<close>

theorem C9_fallback_confidence:
  "(JSON_parse rt (cleanText aiText) = None \<longrightarrow>
      isl (tryAnalysis rt patterns (AiText aiText)) \<and>
      isl (tryAnalysis_1 rt patterns (AiText aiText))) \<and>
   (isl (tryAnalysis rt patterns reply) \<longrightarrow>
      map_of (analyzeWithGemini rt repoData patterns reply) ''confidence'' =
        Some (JString (if rapidCommits patterns > 15 then ''high''
                       else if rapidCommits patterns > 7 then ''medium'' else ''low''))) \<and>
   (isl (tryAnalysis_1 rt patterns reply) \<longrightarrow>
      map_of (analyzeWithGemini_1 rt repoData patterns reply) ''confidence'' =
        Some (JString (if githubVerifiedPercentage patterns > 80 then ''high''
                       else if githubVerifiedPercentage patterns > 60 then ''medium''
                       else ''low'')))"
  by (simp add: tryAnalysis_fails tryAnalysis_1_fails tryAnalysis_Inl tryAnalysis_1_Inl
        fallbackAnalysis_confidence fallbackAnalysis_1_confidence)

text \<open>
  The third scenario: the text \<^verbatim>\<open>not json at all\<close>, 12 rapid commits and a verification
  percentage of 85. The confidence is medium in part_000 and high in part_001.
\<close>

theorem C9_fallback_confidence_witness:
  "JSON_parse (utc Map.empty) (cleanText ''not json at all'') = None \<and>
   isl (tryAnalysis (utc Map.empty) scenarioBundle (AiText ''not json at all'')) \<and>
   isl (tryAnalysis_1 (utc Map.empty) scenarioBundle (AiText ''not json at all'')) \<and>
   map_of (analyzeWithGemini (utc Map.empty) scenarioRepo scenarioBundle
             (AiText ''not json at all'')) ''confidence'' = Some (JString ''medium'') \<and>
   map_of (analyzeWithGemini_1 (utc Map.empty) scenarioRepo scenarioBundle
             (AiText ''not json at all'')) ''confidence'' = Some (JString ''high'')"
proof -
  have rejected: "JSON_parse (utc Map.empty) (cleanText ''not json at all'') = None"
    by (simp add: utc_def)
  have counters: "rapidCommits scenarioBundle = 12" "githubVerifiedPercentage scenarioBundle = 85"
    by (simp_all add: scenarioBundle_def)
  from C9_fallback_confidence
         [of "utc Map.empty" "''not json at all''" scenarioBundle
             "AiText ''not json at all''" scenarioRepo]
       rejected counters
  show ?thesis by simp
qed

text \<open>
  Against claim C9 as stated. In the third scenario part_000 answers medium, not high:
  12 is not above the threshold 15. In part_001 the confidence does not depend on
  \<open>rapidCommits\<close>: with the same 12 rapid commits it is high at a verification
  percentage of 85 and low at one of 50.
\<close>

theorem C9_fallback_confidence_counterexample:
  "map_of (analyzeWithGemini (utc Map.empty) scenarioRepo scenarioBundle
             (AiText ''not json at all'')) ''confidence'' \<noteq> Some (JString ''high'') \<and>
   map_of (analyzeWithGemini_1 (utc Map.empty) scenarioRepo scenarioBundle
             (AiText ''not json at all'')) ''confidence'' = Some (JString ''high'') \<and>
   map_of (analyzeWithGemini_1 (utc Map.empty) scenarioRepo
             (scenarioBundle\<lparr>githubVerifiedPercentage := 50\<rparr>)
             (AiText ''not json at all'')) ''confidence'' = Some (JString ''low'')"
  by code_simp

text \<open>
  Claim C10. On the path of a successful parse (the text is not empty and
  \<open>parseAnalysis\<close> returns for the cleaned text), \<open>analyzeWithGemini\<close> returns the
  parsed object, in which a likelihood \<open>v\<close> of the response that is not a number is
  replaced by \<^verbatim>\<open>parseInt(String(v))\<close>, unless that is \<^verbatim>\<open>NaN\<close> or 0: then the
  estimate from the bundle replaces it, \<open>min (percentage + rapidCommits) 100\<close> in
  part_000 and the percentage in part_001.
\<close>

theorem C10_likelihood_coercion:
  "(aiText \<noteq> [] \<and> parseAnalysis rt patterns (cleanText aiText) = Inr a \<and>
    JSON_parse rt (cleanText aiText) = Some (JObject parsed) \<and>
    map_of parsed ''likelihood'' = Some v \<and> \<not> isNumber (Some v) \<longrightarrow>
    analyzeWithGemini rt repoData patterns (AiText aiText) = a \<and>
    (\<exists>s. js_String rt v = Some s \<and>
          map_of a ''likelihood'' =
            Some (JNumber (Num (of_int (case parseInt s of
                None \<Rightarrow> min (githubVerifiedPercentage patterns + rapidCommits patterns) 100
              | Some i \<Rightarrow>
                  if i = 0
                  then min (githubVerifiedPercentage patterns + rapidCommits patterns) 100
                  else i)))))) \<and>
   (aiText \<noteq> [] \<and> parseAnalysis_1 rt patterns (cleanText aiText) = Inr a1 \<and>
    JSON_parse rt (cleanText aiText) = Some (JObject parsed) \<and>
    map_of parsed ''likelihood'' = Some v \<and> \<not> isNumber (Some v) \<longrightarrow>
    analyzeWithGemini_1 rt repoData patterns (AiText aiText) = a1 \<and>
    (\<exists>s. js_String rt v = Some s \<and>
          map_of a1 ''likelihood'' =
            Some (JNumber (Num (of_int (case parseInt s of
                None \<Rightarrow> githubVerifiedPercentage patterns
              | Some i \<Rightarrow> if i = 0 then githubVerifiedPercentage patterns else i))))))"
proof (intro conjI impI)
  assume h: "aiText \<noteq> [] \<and> parseAnalysis rt patterns (cleanText aiText) = Inr a \<and>
    JSON_parse rt (cleanText aiText) = Some (JObject parsed) \<and>
    map_of parsed ''likelihood'' = Some v \<and> \<not> isNumber (Some v)"
  then show "analyzeWithGemini rt repoData patterns (AiText aiText) = a"
    by (simp add: analyzeWithGemini_def tryAnalysis_def)
  from h obtain p0 p1 p2 p3 where
    p0: "JSON_parse rt (cleanText aiText) = Some (JObject p0)"
    and p1: "ensureArray rt ''keyFindings'' p0 = Inr p1"
    and p2: "ensureArray rt ''recommendations'' p1 = Inr p2"
    and p3: "ensureNumber rt
               (min (githubVerifiedPercentage patterns + rapidCommits patterns) 100) p2 = Inr p3"
    and a: "a = (if \<not> validConfidence (map_of p3 ''confidence'')
                 then AList.update ''confidence''
                        (JString (if js_gt (map_of p3 ''likelihood'') 80 then ''high''
                                  else if js_gt (map_of p3 ''likelihood'') 60 then ''medium''
                                  else ''low'')) p3
                 else p3)"
    by (auto elim: parseAnalysis_steps)
  from h p0 have "p0 = parsed" by simp
  with h have "map_of p2 ''likelihood'' = Some v"
    by (simp add: ensureArray_frame(2) [OF p1] ensureArray_frame(2) [OF p2])
  from ensureNumber_coerced [OF p3 this] h a
  show "\<exists>s. js_String rt v = Some s \<and>
          map_of a ''likelihood'' =
            Some (JNumber (Num (of_int (case parseInt s of
                None \<Rightarrow> min (githubVerifiedPercentage patterns + rapidCommits patterns) 100
              | Some i \<Rightarrow>
                  if i = 0
                  then min (githubVerifiedPercentage patterns + rapidCommits patterns) 100
                  else i))))"
    by (auto simp: update_conv')
next
  assume h: "aiText \<noteq> [] \<and> parseAnalysis_1 rt patterns (cleanText aiText) = Inr a1 \<and>
    JSON_parse rt (cleanText aiText) = Some (JObject parsed) \<and>
    map_of parsed ''likelihood'' = Some v \<and> \<not> isNumber (Some v)"
  then show "analyzeWithGemini_1 rt repoData patterns (AiText aiText) = a1"
    by (simp add: analyzeWithGemini_1_def tryAnalysis_1_def)
  from h obtain p0 p1 p2 p3 where
    p0: "JSON_parse rt (cleanText aiText) = Some (JObject p0)"
    and p1: "ensureArray rt ''keyFindings'' p0 = Inr p1"
    and p2: "ensureArray rt ''recommendations'' p1 = Inr p2"
    and p3: "ensureNumber rt (githubVerifiedPercentage patterns) p2 = Inr p3"
    and a: "a1 = (if \<not> validConfidence (map_of p3 ''confidence'')
                 then AList.update ''confidence''
                        (JString (if githubVerifiedPercentage patterns > 80 then ''high''
                                  else if githubVerifiedPercentage patterns > 60 then ''medium''
                                  else ''low'')) p3
                 else p3)"
    by (auto elim: parseAnalysis_1_steps)
  from h p0 have "p0 = parsed" by simp
  with h have "map_of p2 ''likelihood'' = Some v"
    by (simp add: ensureArray_frame(2) [OF p1] ensureArray_frame(2) [OF p2])
  from ensureNumber_coerced [OF p3 this] h a
  show "\<exists>s. js_String rt v = Some s \<and>
          map_of a1 ''likelihood'' =
            Some (JNumber (Num (of_int (case parseInt s of
                None \<Rightarrow> githubVerifiedPercentage patterns
              | Some i \<Rightarrow> if i = 0 then githubVerifiedPercentage patterns else i))))"
    by (auto simp: update_conv')
qed

text \<open>
  A reply in a code fence whose likelihood is the string \<^verbatim>\<open>"0"\<close>, with the bundle of
  the third scenario: \<^verbatim>\<open>parseInt\<close> gives 0, and the opinion carries the estimate, 97 in
  part_000 and 85 in part_001, not 0.
\<close>

theorem C10_likelihood_coercion_witness:
  "cleanText (''```json'' @ [CHR 0x0A] @ opinionText ''\"0\"'' ''high'' @ [CHR 0x0A] @ ''```'')
     = opinionText ''\"0\"'' ''high'' \<and>
   parseInt ''0'' = Some 0 \<and>
   analyzeWithGemini
     (utc [opinionText ''\"0\"'' ''high'' \<mapsto> opinionValue (JString ''0'') ''high''])
     scenarioRepo scenarioBundle
     (AiText (''```json'' @ [CHR 0x0A] @ opinionText ''\"0\"'' ''high'' @ [CHR 0x0A] @ ''```''))
     = [(''summary'', JString ''Looks generated''), (''likelihood'', JNumber (Num 97)),
        (''keyFindings'', JArray [JString ''a'']),
        (''recommendations'', JArray [JString ''b'']),
        (''confidence'', JString ''high'')] \<and>
   analyzeWithGemini_1
     (utc [opinionText ''\"0\"'' ''high'' \<mapsto> opinionValue (JString ''0'') ''high''])
     scenarioRepo scenarioBundle
     (AiText (''```json'' @ [CHR 0x0A] @ opinionText ''\"0\"'' ''high'' @ [CHR 0x0A] @ ''```''))
     = [(''summary'', JString ''Looks generated''), (''likelihood'', JNumber (Num 85)),
        (''keyFindings'', JArray [JString ''a'']),
        (''recommendations'', JArray [JString ''b'']),
        (''confidence'', JString ''high'')] \<and>
   (97 :: int) = min (githubVerifiedPercentage scenarioBundle + rapidCommits scenarioBundle) 100 \<and>
   (85 :: int) = githubVerifiedPercentage scenarioBundle"
proof -
  let ?txt = "opinionText ''\"0\"'' ''high''"
  let ?reply = "''```json'' @ [CHR 0x0A] @ ?txt @ [CHR 0x0A] @ ''```''"
  let ?rt = "utc [?txt \<mapsto> opinionValue (JString ''0'') ''high'']"
  let ?a = "[(''summary'', JString ''Looks generated''), (''likelihood'', JNumber (Num 97)),
             (''keyFindings'', JArray [JString ''a'']),
             (''recommendations'', JArray [JString ''b'']),
             (''confidence'', JString ''high'')]"
  let ?a1 = "[(''summary'', JString ''Looks generated''), (''likelihood'', JNumber (Num 85)),
              (''keyFindings'', JArray [JString ''a'']),
              (''recommendations'', JArray [JString ''b'']),
              (''confidence'', JString ''high'')]"
  let ?parsed = "[(''summary'', JString ''Looks generated''), (''likelihood'', JString ''0''),
                  (''keyFindings'', JArray [JString ''a'']),
                  (''recommendations'', JArray [JString ''b'']),
                  (''confidence'', JString ''high'')]"
  have cleaned: "cleanText ?reply = ?txt"
    by code_simp
  have not_empty: "?reply \<noteq> []"
    by simp
  have run: "parseAnalysis ?rt scenarioBundle ?txt = Inr ?a"
    by code_simp
  have run1: "parseAnalysis_1 ?rt scenarioBundle ?txt = Inr ?a1"
    by code_simp
  have parsed: "JSON_parse ?rt ?txt = Some (JObject ?parsed)"
    by (simp add: utc_def opinionValue_def)
  have field: "map_of ?parsed ''likelihood'' = Some (JString ''0'')"
    by simp
  have no_number: "\<not> isNumber (Some (JString ''0''))"
    by (simp add: isNumber_def)
  have zero: "parseInt ''0'' = Some 0"
    by code_simp
  note C10 = C10_likelihood_coercion
         [of ?reply ?rt scenarioBundle ?a ?parsed "JString ''0''" scenarioRepo ?a1,
          unfolded cleaned]
  from C10 not_empty run parsed field no_number obtain s where
    r: "analyzeWithGemini ?rt scenarioRepo scenarioBundle (AiText ?reply) = ?a"
    and s: "js_String ?rt (JString ''0'') = Some s"
    and l: "map_of ?a ''likelihood'' =
       Some (JNumber (Num (of_int (case parseInt s of
           None \<Rightarrow> min (githubVerifiedPercentage scenarioBundle
                         + rapidCommits scenarioBundle) 100
         | Some i \<Rightarrow>
             if i = 0
             then min (githubVerifiedPercentage scenarioBundle
                       + rapidCommits scenarioBundle) 100
             else i))))"
    by blast
  from C10 not_empty run1 parsed field no_number obtain s1 where
    r1: "analyzeWithGemini_1 ?rt scenarioRepo scenarioBundle (AiText ?reply) = ?a1"
    and s1: "js_String ?rt (JString ''0'') = Some s1"
    and l1: "map_of ?a1 ''likelihood'' =
       Some (JNumber (Num (of_int (case parseInt s1 of
           None \<Rightarrow> githubVerifiedPercentage scenarioBundle
         | Some i \<Rightarrow> if i = 0 then githubVerifiedPercentage scenarioBundle else i))))"
    by blast
  from s s1 have "s = ''0''" "s1 = ''0''" by simp_all
  with l l1 zero have
    "(97 :: int) = min (githubVerifiedPercentage scenarioBundle
                        + rapidCommits scenarioBundle) 100"
    "(85 :: int) = githubVerifiedPercentage scenarioBundle"
    by simp_all
  with cleaned zero r r1 show ?thesis by (simp only: simp_thms)
qed

subsection \<open>The verdict of the request handler\<close>

lemma serve_fields:
  "aiAnalysis (serve rt url repoData commits badge reply) =
     analyzeWithGemini rt repoData (analyzeCommitPatterns rt commits) reply"
  "commitPatterns (serve rt url repoData commits badge reply) = analyzeCommitPatterns rt commits"
  "verificationPercentage (serve rt url repoData commits badge reply) =
     map_of (analyzeWithGemini rt repoData (analyzeCommitPatterns rt commits) reply) ''likelihood''"
  "isLikelyAIGenerated (serve rt url repoData commits badge reply) =
     js_gt (map_of (analyzeWithGemini rt repoData (analyzeCommitPatterns rt commits) reply)
              ''likelihood'') 70"
  "confidence (serve rt url repoData commits badge reply) =
     map_of (analyzeWithGemini rt repoData (analyzeCommitPatterns rt commits) reply) ''confidence''"
  by (simp_all add: serve_def Let_def)

lemma serve_1_fields:
  "aiAnalysis (serve_1 rt url repoData commits reply) =
     analyzeWithGemini_1 rt repoData (analyzeCommitPatterns_1 rt commits) reply"
  "commitPatterns (serve_1 rt url repoData commits reply) = analyzeCommitPatterns_1 rt commits"
  "verificationPercentage (serve_1 rt url repoData commits reply) =
     Some (JNumber (Num (of_int (githubVerifiedPercentage (analyzeCommitPatterns_1 rt commits)))))"
  "isLikelyAIGenerated (serve_1 rt url repoData commits reply) =
     (githubVerifiedPercentage (analyzeCommitPatterns_1 rt commits) > 80 \<or>
      rapidCommits (analyzeCommitPatterns_1 rt commits) > 15)"
  "confidence (serve_1 rt url repoData commits reply) =
     Some (JString
       (if githubVerifiedPercentage (analyzeCommitPatterns_1 rt commits) > 80 \<or>
           rapidCommits (analyzeCommitPatterns_1 rt commits) > 20
        then ''high''
        else if githubVerifiedPercentage (analyzeCommitPatterns_1 rt commits) > 60 \<or>
                rapidCommits (analyzeCommitPatterns_1 rt commits) > 10
        then ''medium''
        else ''low''))"
  by (simp_all add: serve_1_def Let_def)

lemma isNumber_obtain:
  assumes "isNumber v"
  obtains n where "v = Some (JNumber n)"
  using assms by (auto simp: isNumber_def split: option.splits json.splits)

text \<open>
  Claim C2, as amended. In the copy with the marker check (part_000) the verdict carries
  the opinion of \<open>analyzeWithGemini\<close>, whose likelihood is a number \<open>n\<close>, and
  \<open>isLikelyAIGenerated\<close> is true exactly when \<open>n > 70\<close>. In the other copy (part_001)
  \<open>isLikelyAIGenerated\<close> does not read the opinion: it is true exactly when the
  verification percentage of the signal bundle is above 80 or its rapid commit count is
  above 15.
\<close>

theorem C2_likely_automated:
  "(\<exists>n. map_of (aiAnalysis (serve rt url repoData commits badge reply)) ''likelihood''
          = Some (JNumber n) \<and>
        isLikelyAIGenerated (serve rt url repoData commits badge reply) = number_gt n 70) \<and>
   aiAnalysis (serve rt url repoData commits badge reply) =
     analyzeWithGemini rt repoData (analyzeCommitPatterns rt commits) reply \<and>
   isLikelyAIGenerated (serve_1 rt url repoData commits reply) =
     (githubVerifiedPercentage (commitPatterns (serve_1 rt url repoData commits reply)) > 80 \<or>
      rapidCommits (commitPatterns (serve_1 rt url repoData commits reply)) > 15) \<and>
   commitPatterns (serve_1 rt url repoData commits reply) = analyzeCommitPatterns_1 rt commits"
proof -
  from analyzeWithGemini_likelihood [of rt repoData "analyzeCommitPatterns rt commits" reply]
  obtain n where
    "map_of (analyzeWithGemini rt repoData (analyzeCommitPatterns rt commits) reply)
       ''likelihood'' = Some (JNumber n)"
    by (auto elim: isNumber_obtain)
  then show ?thesis
    by (simp add: serve_fields serve_1_fields js_gt_def)
qed

text \<open>
  The boundary in part_000: a reply with the likelihood 70 gives a verdict that is not
  likely automated, a reply with the likelihood 71 one that is.
\<close>

theorem C2_likely_automated_witness:
  "map_of (aiAnalysis (serve
      (utc [opinionText ''70'' ''medium'' \<mapsto> opinionValue (JNumber (Num 70)) ''medium''])
      ''https://github.com/octocat/hello'' scenarioRepo scenarioCommits True
      (AiText (opinionText ''70'' ''medium'')))) ''likelihood'' = Some (JNumber (Num 70)) \<and>
   \<not> isLikelyAIGenerated (serve
      (utc [opinionText ''70'' ''medium'' \<mapsto> opinionValue (JNumber (Num 70)) ''medium''])
      ''https://github.com/octocat/hello'' scenarioRepo scenarioCommits True
      (AiText (opinionText ''70'' ''medium''))) \<and>
   map_of (aiAnalysis (serve
      (utc [opinionText ''71'' ''medium'' \<mapsto> opinionValue (JNumber (Num 71)) ''medium''])
      ''https://github.com/octocat/hello'' scenarioRepo scenarioCommits True
      (AiText (opinionText ''71'' ''medium'')))) ''likelihood'' = Some (JNumber (Num 71)) \<and>
   isLikelyAIGenerated (serve
      (utc [opinionText ''71'' ''medium'' \<mapsto> opinionValue (JNumber (Num 71)) ''medium''])
      ''https://github.com/octocat/hello'' scenarioRepo scenarioCommits True
      (AiText (opinionText ''71'' ''medium'')))"
proof -
  let ?rt70 = "utc [opinionText ''70'' ''medium'' \<mapsto> opinionValue (JNumber (Num 70)) ''medium'']"
  let ?rt71 = "utc [opinionText ''71'' ''medium'' \<mapsto> opinionValue (JNumber (Num 71)) ''medium'']"
  let ?v70 = "serve ?rt70 ''https://github.com/octocat/hello'' scenarioRepo scenarioCommits True
                (AiText (opinionText ''70'' ''medium''))"
  let ?v71 = "serve ?rt71 ''https://github.com/octocat/hello'' scenarioRepo scenarioCommits True
                (AiText (opinionText ''71'' ''medium''))"
  have l70: "map_of (aiAnalysis ?v70) ''likelihood'' = Some (JNumber (Num 70))"
    by code_simp
  have l71: "map_of (aiAnalysis ?v71) ''likelihood'' = Some (JNumber (Num 71))"
    by code_simp
  from C2_likely_automated
         [of ?rt70 "''https://github.com/octocat/hello''" scenarioRepo scenarioCommits True
             "AiText (opinionText ''70'' ''medium'')"]
       l70
  have "\<not> isLikelyAIGenerated ?v70" by auto
  moreover
  from C2_likely_automated
         [of ?rt71 "''https://github.com/octocat/hello''" scenarioRepo scenarioCommits True
             "AiText (opinionText ''71'' ''medium'')"]
       l71
  have "isLikelyAIGenerated ?v71" by auto
  ultimately show ?thesis
    using l70 l71 by (simp only: simp_thms)
qed

text \<open>
  Against claim C2 as stated. In part_001, for four commits of which three are verified
  and a reply with the likelihood 90, the opinion's likelihood is above 70 and the
  verdict is not likely automated.
\<close>

theorem C2_likely_automated_counterexample:
  "map_of (aiAnalysis (serve_1
      (utc [opinionText ''90'' ''high'' \<mapsto> opinionValue (JNumber (Num 90)) ''high''])
      ''https://github.com/octocat/hello'' scenarioRepo scenarioCommits
      (AiText (opinionText ''90'' ''high'')))) ''likelihood'' = Some (JNumber (Num 90)) \<and>
   \<not> isLikelyAIGenerated (serve_1
      (utc [opinionText ''90'' ''high'' \<mapsto> opinionValue (JNumber (Num 90)) ''high''])
      ''https://github.com/octocat/hello'' scenarioRepo scenarioCommits
      (AiText (opinionText ''90'' ''high'')))"
  by code_simp

text \<open>
  Claim C3, as amended. In the copy with the marker check (part_000) the headline field
  \<open>verificationPercentage\<close> of the verdict is the likelihood of the opinion that
  \<open>analyzeWithGemini\<close> returned, a number. In the other copy (part_001) the headline
  field is the verification percentage of the signal bundle, whatever the opinion says.
\<close>

theorem C3_headline_likelihood:
  "verificationPercentage (serve rt url repoData commits badge reply) =
     map_of (aiAnalysis (serve rt url repoData commits badge reply)) ''likelihood'' \<and>
   isNumber (verificationPercentage (serve rt url repoData commits badge reply)) \<and>
   aiAnalysis (serve rt url repoData commits badge reply) =
     analyzeWithGemini rt repoData (analyzeCommitPatterns rt commits) reply \<and>
   verificationPercentage (serve_1 rt url repoData commits reply) =
     Some (JNumber (Num (of_int
       (githubVerifiedPercentage (commitPatterns (serve_1 rt url repoData commits reply)))))) \<and>
   commitPatterns (serve_1 rt url repoData commits reply) = analyzeCommitPatterns_1 rt commits"
  using analyzeWithGemini_likelihood [of rt repoData "analyzeCommitPatterns rt commits" reply]
  by (simp add: serve_fields serve_1_fields)

text \<open>
  In part_000, for four commits of which three are verified and a reply with the
  likelihood 30, the headline is 30, not the verification percentage 75.
\<close>

theorem C3_headline_likelihood_witness:
  "verificationPercentage (serve
      (utc [opinionText ''30'' ''low'' \<mapsto> opinionValue (JNumber (Num 30)) ''low''])
      ''https://github.com/octocat/hello'' scenarioRepo scenarioCommits False
      (AiText (opinionText ''30'' ''low''))) = Some (JNumber (Num 30)) \<and>
   githubVerifiedPercentage (commitPatterns (serve
      (utc [opinionText ''30'' ''low'' \<mapsto> opinionValue (JNumber (Num 30)) ''low''])
      ''https://github.com/octocat/hello'' scenarioRepo scenarioCommits False
      (AiText (opinionText ''30'' ''low'')))) = 75"
proof -
  let ?rt = "utc [opinionText ''30'' ''low'' \<mapsto> opinionValue (JNumber (Num 30)) ''low'']"
  let ?v = "serve ?rt ''https://github.com/octocat/hello'' scenarioRepo scenarioCommits False
              (AiText (opinionText ''30'' ''low''))"
  have l: "map_of (aiAnalysis ?v) ''likelihood'' = Some (JNumber (Num 30))"
    by code_simp
  have p: "githubVerifiedPercentage (commitPatterns ?v) = 75"
    by code_simp
  from C3_headline_likelihood
         [of ?rt "''https://github.com/octocat/hello''" scenarioRepo scenarioCommits False
             "AiText (opinionText ''30'' ''low'')"]
  have "verificationPercentage ?v = map_of (aiAnalysis ?v) ''likelihood''"
    by (simp only: simp_thms)
  with l p show ?thesis by (simp only: simp_thms)
qed

text \<open>
  Against claim C3 as stated. In part_001, for four commits of which three are verified
  and a reply with the likelihood 30, the headline is 75 and the opinion's likelihood
  is 30.
\<close>

theorem C3_headline_likelihood_counterexample:
  "verificationPercentage (serve_1
      (utc [opinionText ''30'' ''low'' \<mapsto> opinionValue (JNumber (Num 30)) ''low''])
      ''https://github.com/octocat/hello'' scenarioRepo scenarioCommits
      (AiText (opinionText ''30'' ''low''))) = Some (JNumber (Num 75)) \<and>
   map_of (aiAnalysis (serve_1
      (utc [opinionText ''30'' ''low'' \<mapsto> opinionValue (JNumber (Num 30)) ''low''])
      ''https://github.com/octocat/hello'' scenarioRepo scenarioCommits
      (AiText (opinionText ''30'' ''low'')))) ''likelihood'' = Some (JNumber (Num 30))"
  by code_simp

text \<open>
  Claim C4, as amended. In the copy with the marker check (part_000) the confidence of
  the verdict is the confidence field of the opinion that \<open>analyzeWithGemini\<close> returned,
  unchanged, one of low, medium and high. In the other copy (part_001) the confidence of
  the verdict is computed from the signal bundle: high when the verification percentage
  is above 80 or the rapid commit count above 20, medium when they are above 60 or above
  10, low otherwise.
\<close>

theorem C4_confidence_tier:
  "confidence (serve rt url repoData commits badge reply) =
     map_of (aiAnalysis (serve rt url repoData commits badge reply)) ''confidence'' \<and>
   validConfidence (confidence (serve rt url repoData commits badge reply)) \<and>
   aiAnalysis (serve rt url repoData commits badge reply) =
     analyzeWithGemini rt repoData (analyzeCommitPatterns rt commits) reply \<and>
   confidence (serve_1 rt url repoData commits reply) =
     Some (JString
       (if githubVerifiedPercentage (commitPatterns (serve_1 rt url repoData commits reply)) > 80 \<or>
           rapidCommits (commitPatterns (serve_1 rt url repoData commits reply)) > 20
        then ''high''
        else if githubVerifiedPercentage (commitPatterns (serve_1 rt url repoData commits reply)) > 60 \<or>
                rapidCommits (commitPatterns (serve_1 rt url repoData commits reply)) > 10
        then ''medium''
        else ''low'')) \<and>
   commitPatterns (serve_1 rt url repoData commits reply) = analyzeCommitPatterns_1 rt commits"
  using analyzeWithGemini_likelihood [of rt repoData "analyzeCommitPatterns rt commits" reply]
  by (simp add: serve_fields serve_1_fields)

text \<open>
  In part_000, for a reply with the likelihood 88 and the confidence low, the verdict's
  confidence is low as the opinion has it.
\<close>

theorem C4_confidence_tier_witness:
  "confidence (serve
      (utc [opinionText ''88'' ''low'' \<mapsto> opinionValue (JNumber (Num 88)) ''low''])
      ''https://github.com/octocat/hello'' scenarioRepo scenarioCommits False
      (AiText (opinionText ''88'' ''low''))) = Some (JString ''low'')"
proof -
  let ?rt = "utc [opinionText ''88'' ''low'' \<mapsto> opinionValue (JNumber (Num 88)) ''low'']"
  let ?v = "serve ?rt ''https://github.com/octocat/hello'' scenarioRepo scenarioCommits False
              (AiText (opinionText ''88'' ''low''))"
  have c: "map_of (aiAnalysis ?v) ''confidence'' = Some (JString ''low'')"
    by code_simp
  from C4_confidence_tier
         [of ?rt "''https://github.com/octocat/hello''" scenarioRepo scenarioCommits False
             "AiText (opinionText ''88'' ''low'')"]
  have "confidence ?v = map_of (aiAnalysis ?v) ''confidence''"
    by (simp only: simp_thms)
  with c show ?thesis by (simp only: simp_thms)
qed

text \<open>
  Against claim C4 as stated. In part_001, for four commits of which three are verified
  and a reply with the confidence high, the verdict's confidence is medium and the
  opinion's is high.
\<close>

theorem C4_confidence_tier_counterexample:
  "confidence (serve_1
      (utc [opinionText ''88'' ''high'' \<mapsto> opinionValue (JNumber (Num 88)) ''high''])
      ''https://github.com/octocat/hello'' scenarioRepo scenarioCommits
      (AiText (opinionText ''88'' ''high''))) = Some (JString ''medium'') \<and>
   map_of (aiAnalysis (serve_1
      (utc [opinionText ''88'' ''high'' \<mapsto> opinionValue (JNumber (Num 88)) ''high''])
      ''https://github.com/octocat/hello'' scenarioRepo scenarioCommits
      (AiText (opinionText ''88'' ''high'')))) ''confidence'' = Some (JString ''high'')"
  by code_simp

subsection \<open>The eligibility gate\<close>

text \<open>
  Claim C5. For every creation date that is a valid instant \<open>t\<close>, both copies of
  \<open>checkHackathonEligibility\<close> answer eligible exactly when \<open>t\<close> is not before the
  cutoff, which is 31 May 2025, 0:00 UTC in part_000 and 1 December 2024, 0:00 UTC in
  part_001.
\<close>

theorem C5_eligibility_cutoff:
  "created_at repoData = Date t \<Longrightarrow>
   hackathonStartDate = Date 1748649600000 \<and>
   eligibility.isEligible (checkHackathonEligibility rt repoData) = (1748649600000 \<le> t) \<and>
   hackathonStartDate_1 = Date 1733011200000 \<and>
   eligibility.isEligible (checkHackathonEligibility_1 rt repoData) = (1733011200000 \<le> t)"
  by (auto simp: checkHackathonEligibility_def checkHackathonEligibility_1_def
        hackathonStartDate_def hackathonStartDate_1_def Let_def)

text \<open>
  The boundary: a repository created at the cutoff instant is eligible, one created a
  millisecond earlier is not. The cutoff of part_000 is midnight UTC of the day that
  \<open>toDateString\<close> writes as \<^verbatim>\<open>Sat May 31 2025\<close>, that of part_001 midnight of
  \<^verbatim>\<open>Sun Dec 01 2024\<close>.
\<close>

theorem C5_eligibility_cutoff_witness:
  "eligibility.isEligible (checkHackathonEligibility (utc Map.empty)
      (scenarioRepo\<lparr>created_at := Date 1748649600000\<rparr>)) \<and>
   \<not> eligibility.isEligible (checkHackathonEligibility (utc Map.empty)
      (scenarioRepo\<lparr>created_at := Date 1748649599999\<rparr>)) \<and>
   eligibility.isEligible (checkHackathonEligibility_1 (utc Map.empty)
      (scenarioRepo\<lparr>created_at := Date 1733011200000\<rparr>)) \<and>
   \<not> eligibility.isEligible (checkHackathonEligibility_1 (utc Map.empty)
      (scenarioRepo\<lparr>created_at := Date 1733011199999\<rparr>)) \<and>
   1748649600000 mod msPerDay = 0 \<and>
   toDateString (utc Map.empty) hackathonStartDate = ''Sat May 31 2025'' \<and>
   1733011200000 mod msPerDay = 0 \<and>
   toDateString (utc Map.empty) hackathonStartDate_1 = ''Sun Dec 01 2024''"
proof -
  have at: "created_at (scenarioRepo\<lparr>created_at := Date 1748649600000\<rparr>) = Date 1748649600000"
    and before: "created_at (scenarioRepo\<lparr>created_at := Date 1748649599999\<rparr>)
                   = Date 1748649599999"
    and at1: "created_at (scenarioRepo\<lparr>created_at := Date 1733011200000\<rparr>)
                = Date 1733011200000"
    and before1: "created_at (scenarioRepo\<lparr>created_at := Date 1733011199999\<rparr>)
                    = Date 1733011199999"
    by simp_all
  have calendar:
    "1748649600000 mod msPerDay = 0"
    "toDateString (utc Map.empty) hackathonStartDate = ''Sat May 31 2025''"
    "1733011200000 mod msPerDay = 0"
    "toDateString (utc Map.empty) hackathonStartDate_1 = ''Sun Dec 01 2024''"
    by code_simp+
  from C5_eligibility_cutoff [OF at, of "utc Map.empty"]
       C5_eligibility_cutoff [OF before, of "utc Map.empty"]
       C5_eligibility_cutoff [OF at1, of "utc Map.empty"]
       C5_eligibility_cutoff [OF before1, of "utc Map.empty"]
       calendar
  show ?thesis by simp
qed

lemma sublist_behind: "sublist x s \<Longrightarrow> sublist x (p @ s)"
  by (metis sublist_append)

lemma sublist_first: "sublist x (p @ x @ s)"
  by (rule sublist_appendI)

lemma reasons_differ:
  assumes "\<not> suffix s1 s2" and "\<not> suffix s2 s1"
  shows "p1 @ s1 \<noteq> p2 @ s2"
proof
  assume eq: "p1 @ s1 = p2 @ s2"
  have "suffix s1 (p1 @ s1)" and "suffix s2 (p2 @ s2)"
    by (simp_all add: suffix_def)
  with eq have "suffix s1 (p2 @ s2)" "suffix s2 (p2 @ s2)" by simp_all
  then have "suffix s1 s2 \<or> suffix s2 s1"
    by (rule suffix_same_cases)
  with assms show False by simp
qed

lemma reason_eligible:
  "\<not> date_less (created_at repoData) hackathonStartDate \<Longrightarrow>
   checkHackathonEligibility rt repoData =
     \<lparr>eligibility.isEligible = True,
      reason = ''Repository created on '' @ toDateString rt (created_at repoData) @
               '', from/after hackathon start date (May 31, 2025)''\<rparr>"
  by (simp add: checkHackathonEligibility_def Let_def)

lemma reason_ineligible:
  "date_less (created_at repoData) hackathonStartDate \<Longrightarrow>
   checkHackathonEligibility rt repoData =
     \<lparr>eligibility.isEligible = False,
      reason = ''Repository created on '' @ toDateString rt (created_at repoData) @
               '', before hackathon start date (May 31, 2025)''\<rparr>"
  by (simp add: checkHackathonEligibility_def Let_def)

lemma reason_1_eligible:
  "\<not> date_less (created_at repoData) hackathonStartDate_1 \<Longrightarrow>
   checkHackathonEligibility_1 rt repoData =
     \<lparr>eligibility.isEligible = True, reason = ''Repository meets hackathon timeline requirements''\<rparr>"
  by (simp add: checkHackathonEligibility_1_def Let_def)

lemma reason_1_ineligible:
  "date_less (created_at repoData) hackathonStartDate_1 \<Longrightarrow>
   checkHackathonEligibility_1 rt repoData =
     \<lparr>eligibility.isEligible = False,
      reason = ''Repository created on '' @ toDateString rt (created_at repoData) @
               '', before hackathon submission period (December 1, 2024)''\<rparr>"
  by (simp add: checkHackathonEligibility_1_def Let_def)

lemma cutoff_named:
  "sublist ''May 31, 2025'' '', from/after hackathon start date (May 31, 2025)''"
  "sublist ''May 31, 2025'' '', before hackathon start date (May 31, 2025)''"
  "sublist ''December 1, 2024'' '', before hackathon submission period (December 1, 2024)''"
  by code_simp+

lemma wordings_differ:
  "\<not> suffix '', from/after hackathon start date (May 31, 2025)''
            '', before hackathon start date (May 31, 2025)''"
  "\<not> suffix '', before hackathon start date (May 31, 2025)''
            '', from/after hackathon start date (May 31, 2025)''"
  "\<not> suffix '', before hackathon submission period (December 1, 2024)''
            ''Repository meets hackathon timeline requirements''"
  "\<not> suffix ''Repository meets hackathon timeline requirements''
            '', before hackathon submission period (December 1, 2024)''"
  by code_simp+

lemma reason_names_dates:
  "sublist (toDateString rt (created_at repoData))
     (reason (checkHackathonEligibility rt repoData)) \<and>
   sublist ''May 31, 2025'' (reason (checkHackathonEligibility rt repoData))"
proof (cases "date_less (created_at repoData) hackathonStartDate")
  case True
  show ?thesis
    unfolding reason_ineligible [OF True] eligibility.simps
    by (intro conjI sublist_first sublist_behind cutoff_named)
next
  case False
  show ?thesis
    unfolding reason_eligible [OF False] eligibility.simps
    by (intro conjI sublist_first sublist_behind cutoff_named)
qed

lemma reason_1_names_dates:
  assumes "\<not> eligibility.isEligible (checkHackathonEligibility_1 rt repoData)"
  shows "sublist (toDateString rt (created_at repoData))
           (reason (checkHackathonEligibility_1 rt repoData)) \<and>
         sublist ''December 1, 2024'' (reason (checkHackathonEligibility_1 rt repoData))"
proof (cases "date_less (created_at repoData) hackathonStartDate_1")
  case True
  show ?thesis
    unfolding reason_1_ineligible [OF True] eligibility.simps
    by (intro conjI sublist_first sublist_behind cutoff_named)
next
  case False
  with assms show ?thesis
    by (simp add: reason_1_eligible)
qed

lemma reason_wording:
  assumes "eligibility.isEligible (checkHackathonEligibility rt repoData)"
    and "\<not> eligibility.isEligible (checkHackathonEligibility rt repoData')"
  shows "reason (checkHackathonEligibility rt repoData)
           \<noteq> reason (checkHackathonEligibility rt repoData')"
proof -
  from assms(1) have e: "\<not> date_less (created_at repoData) hackathonStartDate"
    by (auto simp: checkHackathonEligibility_def Let_def split: if_splits)
  from assms(2) have i: "date_less (created_at repoData') hackathonStartDate"
    by (auto simp: checkHackathonEligibility_def Let_def split: if_splits)
  have "(''Repository created on '' @ toDateString rt (created_at repoData)) @
          '', from/after hackathon start date (May 31, 2025)''
        \<noteq> (''Repository created on '' @ toDateString rt (created_at repoData')) @
          '', before hackathon start date (May 31, 2025)''"
    by (rule reasons_differ) (rule wordings_differ)+
  then show ?thesis
    unfolding reason_eligible [OF e] reason_ineligible [OF i] eligibility.simps
    by simp
qed

lemma reason_1_wording:
  assumes "eligibility.isEligible (checkHackathonEligibility_1 rt repoData)"
    and "\<not> eligibility.isEligible (checkHackathonEligibility_1 rt repoData')"
  shows "reason (checkHackathonEligibility_1 rt repoData)
           \<noteq> reason (checkHackathonEligibility_1 rt repoData')"
proof -
  from assms(1) have e: "\<not> date_less (created_at repoData) hackathonStartDate_1"
    by (auto simp: checkHackathonEligibility_1_def Let_def split: if_splits)
  from assms(2) have i: "date_less (created_at repoData') hackathonStartDate_1"
    by (auto simp: checkHackathonEligibility_1_def Let_def split: if_splits)
  have "[] @ ''Repository meets hackathon timeline requirements''
        \<noteq> (''Repository created on '' @ toDateString rt (created_at repoData')) @
          '', before hackathon submission period (December 1, 2024)''"
    by (rule reasons_differ) (rule wordings_differ)+
  then show ?thesis
    unfolding reason_1_eligible [OF e] reason_1_ineligible [OF i] eligibility.simps
    by simp
qed

text \<open>
  Claim C6, as amended. In the copy with the marker check (part_000) the reason contains
  the creation date as \<open>toDateString\<close> writes it and the cutoff date \<^verbatim>\<open>May 31, 2025\<close>, on
  both branches. In the other copy (part_001) the reason of an ineligible repository
  contains the creation date and the cutoff date \<^verbatim>\<open>December 1, 2024\<close>, and the reason of
  an eligible one is the fixed sentence
  \<^verbatim>\<open>Repository meets hackathon timeline requirements\<close>. In both copies the reason of an
  eligible repository differs from the reason of an ineligible one.
\<close>

theorem C6_eligibility_reason:
  "sublist (toDateString rt (created_at repoData))
     (reason (checkHackathonEligibility rt repoData)) \<and>
   sublist ''May 31, 2025'' (reason (checkHackathonEligibility rt repoData)) \<and>
   (eligibility.isEligible (checkHackathonEligibility rt repoData) \<and>
    \<not> eligibility.isEligible (checkHackathonEligibility rt repoData') \<longrightarrow>
    reason (checkHackathonEligibility rt repoData)
      \<noteq> reason (checkHackathonEligibility rt repoData')) \<and>
   (\<not> eligibility.isEligible (checkHackathonEligibility_1 rt repoData') \<longrightarrow>
    sublist (toDateString rt (created_at repoData'))
      (reason (checkHackathonEligibility_1 rt repoData')) \<and>
    sublist ''December 1, 2024'' (reason (checkHackathonEligibility_1 rt repoData'))) \<and>
   (eligibility.isEligible (checkHackathonEligibility_1 rt repoData) \<longrightarrow>
    reason (checkHackathonEligibility_1 rt repoData)
      = ''Repository meets hackathon timeline requirements'') \<and>
   (eligibility.isEligible (checkHackathonEligibility_1 rt repoData) \<and>
    \<not> eligibility.isEligible (checkHackathonEligibility_1 rt repoData') \<longrightarrow>
    reason (checkHackathonEligibility_1 rt repoData)
      \<noteq> reason (checkHackathonEligibility_1 rt repoData'))"
proof -
  have fixed: "eligibility.isEligible (checkHackathonEligibility_1 rt repoData) \<longrightarrow>
    reason (checkHackathonEligibility_1 rt repoData)
      = ''Repository meets hackathon timeline requirements''"
    by (auto simp: checkHackathonEligibility_1_def Let_def split: if_splits)
  from reason_names_dates [of rt repoData] reason_wording [of rt repoData repoData']
    reason_1_names_dates [of rt repoData'] reason_1_wording [of rt repoData repoData'] fixed
  show ?thesis by blast
qed

text \<open>
  A repository created on 15 June 2025 and one created on 1 May 2024, in both copies.
\<close>

theorem C6_eligibility_reason_witness:
  "eligibility.isEligible (checkHackathonEligibility (utc Map.empty) scenarioRepo) \<and>
   \<not> eligibility.isEligible (checkHackathonEligibility (utc Map.empty)
        (scenarioRepo\<lparr>created_at := Date 1714521600000\<rparr>)) \<and>
   reason (checkHackathonEligibility (utc Map.empty) scenarioRepo) =
     ''Repository created on Sun Jun 15 2025, from/after hackathon start date (May 31, 2025)'' \<and>
   reason (checkHackathonEligibility (utc Map.empty)
        (scenarioRepo\<lparr>created_at := Date 1714521600000\<rparr>)) =
     ''Repository created on Wed May 01 2024, before hackathon start date (May 31, 2025)'' \<and>
   reason (checkHackathonEligibility (utc Map.empty) scenarioRepo)
     \<noteq> reason (checkHackathonEligibility (utc Map.empty)
           (scenarioRepo\<lparr>created_at := Date 1714521600000\<rparr>)) \<and>
   sublist (toDateString (utc Map.empty) (created_at scenarioRepo))
     (reason (checkHackathonEligibility (utc Map.empty) scenarioRepo)) \<and>
   eligibility.isEligible (checkHackathonEligibility_1 (utc Map.empty) scenarioRepo) \<and>
   \<not> eligibility.isEligible (checkHackathonEligibility_1 (utc Map.empty)
        (scenarioRepo\<lparr>created_at := Date 1714521600000\<rparr>)) \<and>
   reason (checkHackathonEligibility_1 (utc Map.empty)
        (scenarioRepo\<lparr>created_at := Date 1714521600000\<rparr>)) =
     ''Repository created on Wed May 01 2024, before hackathon submission period (December 1, 2024)'' \<and>
   reason (checkHackathonEligibility_1 (utc Map.empty) scenarioRepo)
     \<noteq> reason (checkHackathonEligibility_1 (utc Map.empty)
           (scenarioRepo\<lparr>created_at := Date 1714521600000\<rparr>))"
proof -
  let ?old = "scenarioRepo\<lparr>created_at := Date 1714521600000\<rparr>"
  have branches:
    "eligibility.isEligible (checkHackathonEligibility (utc Map.empty) scenarioRepo)"
    "\<not> eligibility.isEligible (checkHackathonEligibility (utc Map.empty) ?old)"
    "eligibility.isEligible (checkHackathonEligibility_1 (utc Map.empty) scenarioRepo)"
    "\<not> eligibility.isEligible (checkHackathonEligibility_1 (utc Map.empty) ?old)"
    by code_simp+
  have texts:
    "reason (checkHackathonEligibility (utc Map.empty) scenarioRepo) =
       ''Repository created on Sun Jun 15 2025, from/after hackathon start date (May 31, 2025)''"
    "reason (checkHackathonEligibility (utc Map.empty) ?old) =
       ''Repository created on Wed May 01 2024, before hackathon start date (May 31, 2025)''"
    "reason (checkHackathonEligibility_1 (utc Map.empty) ?old) =
       ''Repository created on Wed May 01 2024, before hackathon submission period (December 1, 2024)''"
    by code_simp+
  from C6_eligibility_reason [of "utc Map.empty" scenarioRepo ?old] branches
  have "reason (checkHackathonEligibility (utc Map.empty) scenarioRepo)
          \<noteq> reason (checkHackathonEligibility (utc Map.empty) ?old)"
    and "sublist (toDateString (utc Map.empty) (created_at scenarioRepo))
           (reason (checkHackathonEligibility (utc Map.empty) scenarioRepo))"
    and "reason (checkHackathonEligibility_1 (utc Map.empty) scenarioRepo)
          \<noteq> reason (checkHackathonEligibility_1 (utc Map.empty) ?old)"
    by blast+
  with branches texts show ?thesis by (simp only: simp_thms)
qed

text \<open>
  Against claim C6 as stated. In part_001 the reason of the eligible repository created
  on 15 June 2025 contains neither the cutoff date nor the creation date.
\<close>

theorem C6_eligibility_reason_counterexample:
  "eligibility.isEligible (checkHackathonEligibility_1 (utc Map.empty) scenarioRepo) \<and>
   reason (checkHackathonEligibility_1 (utc Map.empty) scenarioRepo)
     = ''Repository meets hackathon timeline requirements'' \<and>
   toDateString (utc Map.empty) (created_at scenarioRepo) = ''Sun Jun 15 2025'' \<and>
   \<not> sublist (toDateString (utc Map.empty) (created_at scenarioRepo))
        (reason (checkHackathonEligibility_1 (utc Map.empty) scenarioRepo)) \<and>
   \<not> sublist ''December 1, 2024''
        (reason (checkHackathonEligibility_1 (utc Map.empty) scenarioRepo)) \<and>
   \<not> sublist ''2024'' (reason (checkHackathonEligibility_1 (utc Map.empty) scenarioRepo)) \<and>
   \<not> sublist ''2025'' (reason (checkHackathonEligibility_1 (utc Map.empty) scenarioRepo))"
  by code_simp

end
